theory Spec2Isabelle
  imports
    Complex_Main
    "HOL-Library.Word"
    "HOL-Library.Char_ord"
    "HOL-Library.List_Lexorder"
    "HOL-Library.Multiset"
begin

unbundle bit_operations_syntax

section \<open>Exceptions\<close>

text \<open>
  The Python exceptions the two scripts can meet.  The first five are
  \<^verbatim>\<open>requests.exceptions.RequestException\<close> and its subclasses, the last of them
  the \<open>JSONDecodeError\<close> of the requests library; the others are built-in
  exceptions.
\<close>

datatype py_error =
    RequestException
  | Timeout
  | ConnectionError
  | HTTPError
  | JSONDecodeError
  | ValueError
  | TypeError
  | AttributeError
  | OverflowError

section \<open>deposit.py: the account poll loop\<close>

text \<open>
  \<^verbatim>\<open>
  account = None
  max_attempts = 20
  attempt = 0
  print("Fetching account...")
  while account is None and attempt < max_attempts:
      account = client.get_account_v3()
      if account is None:
          print(f"...still waiting (attempt {attempt + 1}/{max_attempts})")
          time.sleep(6)
      attempt += 1

  if account is None:
      raise ValueError(f"Failed to fetch account after {max_attempts} attempts. ...")

  client.account = account
  print("Account fetched:", account)
  \<close>
  The SDK client is outside the script.  Its account lookup is a stateful call, so the
  client is a state \<open>'c\<close> together with a function \<open>get_account_v3\<close> that returns the
  answer (\<open>None\<close> is Python's \<open>None\<close>) and the next state of the client.  Everything
  the loop does to the outside is recorded in a trace of effects.
\<close>

datatype 'a effect =
    Print_fetching
  | Lookup
  | Print_still_waiting nat nat
  | Sleep nat
  | Print_account_fetched 'a

record ('a, 'c) poll_state =
  account :: "'a option"
  attempt :: nat
  client :: 'c
  trace :: "'a effect list"

definition max_attempts :: nat where
  "max_attempts = 20"

definition poll_init :: "'c \<Rightarrow> ('a, 'c) poll_state" where
  "poll_init c = \<lparr>account = None, attempt = 0, client = c, trace = [Print_fetching]\<rparr>"

text \<open>One run of the loop body.\<close>

definition poll_body ::
  "('c \<Rightarrow> 'a option \<times> 'c) \<Rightarrow> ('a, 'c) poll_state \<Rightarrow> ('a, 'c) poll_state" where
  "poll_body get_account_v3 s =
     (let (acc, c') = get_account_v3 (client s);
          tr = trace s @ [Lookup];
          tr' = (if acc = None
                 then tr @ [Print_still_waiting (attempt s + 1) max_attempts, Sleep 6]
                 else tr)
      in \<lparr>account = acc, attempt = attempt s + 1, client = c', trace = tr'\<rparr>)"

function poll_loop ::
  "('c \<Rightarrow> 'a option \<times> 'c) \<Rightarrow> ('a, 'c) poll_state \<Rightarrow> ('a, 'c) poll_state" where
  "poll_loop get_account_v3 s =
     (if account s = None \<and> attempt s < max_attempts
      then poll_loop get_account_v3 (poll_body get_account_v3 s)
      else s)"
  by pat_completeness auto

termination
  by (relation "measure (\<lambda>(g, s). max_attempts - attempt s)")
     (auto simp: poll_body_def Let_def split: prod.splits)

text \<open>
  The script from the start of the loop to the line after it: either the
  \<open>ValueError\<close> of line 52, or the state in which \<open>client.account\<close> is set and
  the deposit step begins.  The trace is returned in both cases.
\<close>

definition fetch_account ::
  "('c \<Rightarrow> 'a option \<times> 'c) \<Rightarrow> 'c \<Rightarrow> 'a effect list \<times> (py_error + 'a \<times> 'c)" where
  "fetch_account get_account_v3 c =
     (let s = poll_loop get_account_v3 (poll_init c)
      in case account s of
           None \<Rightarrow> (trace s, Inl ValueError)
         | Some a \<Rightarrow> (trace s @ [Print_account_fetched a], Inr (a, client s)))"

text \<open>
  A mock account lookup: the client's state is the number of calls made so far, and
  the answers are given by a function of the call's index (from 0).
\<close>

definition mock_lookup :: "(nat \<Rightarrow> 'a option) \<Rightarrow> nat \<Rightarrow> 'a option \<times> nat" where
  "mock_lookup answers n = (answers n, Suc n)"

definition lookups :: "'a effect list \<Rightarrow> nat" where
  "lookups tr = length (filter (\<lambda>e. e = Lookup) tr)"

text \<open>
  For the statements about the loop: the state of the client after \<open>n\<close> lookups, the
  answer of lookup number \<open>i\<close> (from 0), and the effects of \<open>n\<close> failed attempts
  starting at attempt counter \<open>j\<close>.
\<close>

fun client_after :: "('c \<Rightarrow> 'a option \<times> 'c) \<Rightarrow> 'c \<Rightarrow> nat \<Rightarrow> 'c" where
  "client_after g c 0 = c"
| "client_after g c (Suc n) = snd (g (client_after g c n))"

definition answer :: "('c \<Rightarrow> 'a option \<times> 'c) \<Rightarrow> 'c \<Rightarrow> nat \<Rightarrow> 'a option" where
  "answer g c i = fst (g (client_after g c i))"

definition waits :: "nat \<Rightarrow> nat \<Rightarrow> 'a effect list" where
  "waits j n = concat (map (\<lambda>i. [Lookup, Print_still_waiting (Suc i) max_attempts, Sleep 6]) [j..<j + n])"

section \<open>apex.py: the signer\<close>

text \<open>
  A Python \<open>str\<close> is modelled by the list of the bytes of its UTF-8 encoding, so
  \<open>+\<close> on strings is \<open>@\<close> and \<open>.encode('utf-8')\<close> changes the type only.
\<close>

type_synonym bytes = "8 word list"

definition encode_utf8 :: "string \<Rightarrow> bytes" where
  "encode_utf8 s = map of_char s"

definition decode_ascii :: "bytes \<Rightarrow> string" where
  "decode_ascii bs = map (\<lambda>b. char_of (unat b)) bs"

text \<open>
  \<open>base64.standard_b64encode\<close>: three bytes give four characters of the alphabet, and
  the last group is padded with \<open>=\<close>.
\<close>

definition b64_alphabet :: string where
  "b64_alphabet = ''ABCDEFGHIJKLMNOPQRSTUVWXYZabcdefghijklmnopqrstuvwxyz0123456789+/''"

definition b64_char :: "nat \<Rightarrow> 8 word" where
  "b64_char i = of_char (b64_alphabet ! (i mod 64))"

fun standard_b64encode :: "bytes \<Rightarrow> bytes" where
  "standard_b64encode [] = []"
| "standard_b64encode [a] =
     (let n = unat a
      in [b64_char (n div 4), b64_char ((n mod 4) * 16), of_char CHR ''='', of_char CHR ''=''])"
| "standard_b64encode [a, b] =
     (let n = unat a * 256 + unat b
      in [b64_char (n div 1024), b64_char (n div 16 mod 64), b64_char ((n mod 16) * 4),
          of_char CHR ''=''])"
| "standard_b64encode (a # b # c # rest) =
     (let n = unat a * 65536 + unat b * 256 + unat c
      in b64_char (n div 262144) # b64_char (n div 4096 mod 64) # b64_char (n div 64 mod 64) #
         b64_char (n mod 64) # standard_b64encode rest)"

text \<open>
  \<open>hashlib.sha256\<close>: SHA-256 as in FIPS 180-4, on 32-bit words.
\<close>

definition K256 :: "32 word list" where
  "K256 =
     [0x428A2F98, 0x71374491, 0xB5C0FBCF, 0xE9B5DBA5,
      0x3956C25B, 0x59F111F1, 0x923F82A4, 0xAB1C5ED5,
      0xD807AA98, 0x12835B01, 0x243185BE, 0x550C7DC3,
      0x72BE5D74, 0x80DEB1FE, 0x9BDC06A7, 0xC19BF174,
      0xE49B69C1, 0xEFBE4786, 0x0FC19DC6, 0x240CA1CC,
      0x2DE92C6F, 0x4A7484AA, 0x5CB0A9DC, 0x76F988DA,
      0x983E5152, 0xA831C66D, 0xB00327C8, 0xBF597FC7,
      0xC6E00BF3, 0xD5A79147, 0x06CA6351, 0x14292967,
      0x27B70A85, 0x2E1B2138, 0x4D2C6DFC, 0x53380D13,
      0x650A7354, 0x766A0ABB, 0x81C2C92E, 0x92722C85,
      0xA2BFE8A1, 0xA81A664B, 0xC24B8B70, 0xC76C51A3,
      0xD192E819, 0xD6990624, 0xF40E3585, 0x106AA070,
      0x19A4C116, 0x1E376C08, 0x2748774C, 0x34B0BCB5,
      0x391C0CB3, 0x4ED8AA4A, 0x5B9CCA4F, 0x682E6FF3,
      0x748F82EE, 0x78A5636F, 0x84C87814, 0x8CC70208,
      0x90BEFFFA, 0xA4506CEB, 0xBEF9A3F7, 0xC67178F2]"

definition H256 :: "32 word list" where
  "H256 =
     [0x6A09E667, 0xBB67AE85, 0x3C6EF372, 0xA54FF53A,
      0x510E527F, 0x9B05688C, 0x1F83D9AB, 0x5BE0CD19]"

definition Ch :: "32 word \<Rightarrow> 32 word \<Rightarrow> 32 word \<Rightarrow> 32 word" where
  "Ch x y z = (x AND y) XOR (NOT x AND z)"

definition Maj :: "32 word \<Rightarrow> 32 word \<Rightarrow> 32 word \<Rightarrow> 32 word" where
  "Maj x y z = (x AND y) XOR (x AND z) XOR (y AND z)"

definition Sigma0 :: "32 word \<Rightarrow> 32 word" where
  "Sigma0 x = word_rotr 2 x XOR word_rotr 13 x XOR word_rotr 22 x"

definition Sigma1 :: "32 word \<Rightarrow> 32 word" where
  "Sigma1 x = word_rotr 6 x XOR word_rotr 11 x XOR word_rotr 25 x"

definition sigma0 :: "32 word \<Rightarrow> 32 word" where
  "sigma0 x = word_rotr 7 x XOR word_rotr 18 x XOR drop_bit 3 x"

definition sigma1 :: "32 word \<Rightarrow> 32 word" where
  "sigma1 x = word_rotr 17 x XOR word_rotr 19 x XOR drop_bit 10 x"

text \<open>Big-endian conversions.\<close>

definition be32 :: "8 word \<Rightarrow> 8 word \<Rightarrow> 8 word \<Rightarrow> 8 word \<Rightarrow> 32 word" where
  "be32 a b c d = push_bit 24 (ucast a) OR push_bit 16 (ucast b) OR push_bit 8 (ucast c) OR ucast d"

definition bytes_of_word32 :: "32 word \<Rightarrow> bytes" where
  "bytes_of_word32 w = [ucast (drop_bit 24 w), ucast (drop_bit 16 w), ucast (drop_bit 8 w), ucast w]"

definition bytes_of_len64 :: "nat \<Rightarrow> bytes" where
  "bytes_of_len64 n = map (\<lambda>i. of_nat (n div 256 ^ (7 - i))) [0..<8]"

fun words_of_bytes :: "bytes \<Rightarrow> 32 word list" where
  "words_of_bytes (a # b # c # d # rest) = be32 a b c d # words_of_bytes rest"
| "words_of_bytes _ = []"

text \<open>
  Padding: the byte \<open>0x80\<close>, zeros up to 56 modulo 64, and the length in bits as 8
  bytes.
\<close>

definition sha256_pad :: "bytes \<Rightarrow> bytes" where
  "sha256_pad m =
     m @ [0x80] @ replicate ((119 - length m mod 64) mod 64) 0 @ bytes_of_len64 (8 * length m)"

text \<open>The message schedule: \<open>schedule 48\<close> extends the 16 words of a block to 64.\<close>

fun schedule :: "nat \<Rightarrow> 32 word list \<Rightarrow> 32 word list" where
  "schedule 0 w = w"
| "schedule (Suc n) w =
     (let t = length w
      in schedule n (w @ [sigma1 (w ! (t - 2)) + w ! (t - 7) + sigma0 (w ! (t - 15)) + w ! (t - 16)]))"

text \<open>The working variables \<open>a\<close> to \<open>h\<close>, one round, and the 64 rounds on a block.\<close>

record sha_vars =
  va :: "32 word"
  vb :: "32 word"
  vc :: "32 word"
  vd :: "32 word"
  ve :: "32 word"
  vf :: "32 word"
  vg :: "32 word"
  vh :: "32 word"

definition sha_round :: "sha_vars \<Rightarrow> 32 word \<times> 32 word \<Rightarrow> sha_vars" where
  "sha_round v kw =
     (let t1 = vh v + Sigma1 (ve v) + Ch (ve v) (vf v) (vg v) + fst kw + snd kw;
          t2 = Sigma0 (va v) + Maj (va v) (vb v) (vc v)
      in \<lparr>va = t1 + t2, vb = va v, vc = vb v, vd = vc v,
          ve = vd v + t1, vf = ve v, vg = vf v, vh = vg v\<rparr>)"

definition sha_compress :: "32 word list \<Rightarrow> 32 word list \<Rightarrow> 32 word list" where
  "sha_compress h block =
     (let v0 = \<lparr>va = h ! 0, vb = h ! 1, vc = h ! 2, vd = h ! 3,
                ve = h ! 4, vf = h ! 5, vg = h ! 6, vh = h ! 7\<rparr>;
          v = foldl sha_round v0 (zip K256 (schedule 48 block))
      in map2 (+) h [va v, vb v, vc v, vd v, ve v, vf v, vg v, vh v])"

fun sha_blocks :: "nat \<Rightarrow> 32 word list \<Rightarrow> 32 word list \<Rightarrow> 32 word list" where
  "sha_blocks 0 h ws = h"
| "sha_blocks (Suc n) h ws = sha_blocks n (sha_compress h (take 16 ws)) (drop 16 ws)"

definition sha256 :: "bytes \<Rightarrow> bytes" where
  "sha256 m =
     (let ws = words_of_bytes (sha256_pad m)
      in concat (map bytes_of_word32 (sha_blocks (length ws div 16) H256 ws)))"

text \<open>
  \<open>hmac.new(key, msg, hashlib.sha256).digest()\<close>: HMAC as in RFC 2104 with the block
  size 64 of SHA-256.
\<close>

definition hmac_sha256 :: "bytes \<Rightarrow> bytes \<Rightarrow> bytes" where
  "hmac_sha256 key msg =
     (let k = (if length key > 64 then sha256 key else key);
          k' = k @ replicate (64 - length k) 0
      in sha256 (map (\<lambda>b. b XOR 0x5c) k' @ sha256 (map (\<lambda>b. b XOR 0x36) k' @ msg)))"

text \<open>
  \<^verbatim>\<open>
  def _generate_signature(self, timestamp, method, path, data=""):
      message = timestamp + method + path + data
      key = base64.standard_b64encode(self.secret.encode('utf-8'))
      signature = hmac.new(key, message.encode('utf-8'), hashlib.sha256)
      return base64.standard_b64encode(signature.digest()).decode()
  \<close>
\<close>

definition generate_signature :: "string \<Rightarrow> string \<Rightarrow> string \<Rightarrow> string \<Rightarrow> string \<Rightarrow> string" where
  "generate_signature secret timestamp method path data =
     (let message = timestamp @ method @ path @ data;
          key = standard_b64encode (encode_utf8 secret);
          signature = hmac_sha256 key (encode_utf8 message)
      in decode_ascii (standard_b64encode signature))"

section \<open>apex.py: the request client\<close>

subsection \<open>Python values and built-ins\<close>

text \<open>
  The values a parameter dictionary holds.  \<open>PNone\<close> is Python's \<open>None\<close>.
\<close>

datatype pyval = PNone | PStr string | PInt int | PBool bool

text \<open>\<open>str\<close> of an integer: its decimal digits, with a minus sign when negative.\<close>

definition digit_char :: "nat \<Rightarrow> char" where
  "digit_char d = ''0123456789'' ! d"

fun str_of_nat :: "nat \<Rightarrow> string" where
  "str_of_nat n = (if n < 10 then [digit_char n] else str_of_nat (n div 10) @ [digit_char (n mod 10)])"

definition str_of_int :: "int \<Rightarrow> string" where
  "str_of_int i = (if i < 0 then CHR ''-'' # str_of_nat (nat (- i)) else str_of_nat (nat i))"

text \<open>What an f-string puts for \<open>{value}\<close>.\<close>

fun py_str :: "pyval \<Rightarrow> string" where
  "py_str PNone = ''None''"
| "py_str (PStr s) = s"
| "py_str (PInt i) = str_of_int i"
| "py_str (PBool b) = (if b then ''True'' else ''False'')"

text \<open>\<open>sep.join(xs)\<close>\<close>

fun join :: "string \<Rightarrow> string list \<Rightarrow> string" where
  "join sep [] = []"
| "join sep [x] = x"
| "join sep (x # y # ys) = x @ sep @ join sep (y # ys)"

subsection \<open>The query string of a GET request\<close>

text \<open>
  A parameter dictionary is the list of its items in insertion order; its keys are
  distinct.  \<open>sorted(params.items())\<close> sorts the (key, value) pairs; as no two pairs
  of a dictionary share a key, only the keys are ever compared, so the model sorts by
  key.  Strings are compared as Python compares them: lexicographically by code point,
  which for UTF-8 encoded strings is the lexicographic order of the bytes.
\<close>

type_synonym params = "(string \<times> pyval) list"

definition sorted_items :: "params \<Rightarrow> params" where
  "sorted_items ps = sort_key fst ps"

text \<open>
  \<^verbatim>\<open>
  query_params = []
  for key, value in sorted(params.items()):
      if value is not None:
          query_params.append(f"{key}={value}")
  \<close>
\<close>

fun collect_query_params :: "params \<Rightarrow> string list \<Rightarrow> string list" where
  "collect_query_params [] query_params = query_params"
| "collect_query_params ((key, val) # rest) query_params =
     collect_query_params rest
       (if val \<noteq> PNone then query_params @ [key @ ''='' @ py_str val] else query_params)"

definition query_params_of :: "params \<Rightarrow> string list" where
  "query_params_of ps = collect_query_params (sorted_items ps) []"

subsection \<open>Requests and responses\<close>

text \<open>
  JSON values as \<open>response.json()\<close> returns them.  \<open>'f\<close> is Python's \<open>float\<close>;
  a JSON number is held as the float it converts to (\<open>JNum\<close>), when it has one: an
  integer \<open>n\<close> with \<open>\<bar>n\<bar> \<ge> 2 ^ 1024 - 2 ^ 970\<close> has none, Python holds it as an
  \<open>int\<close> for which \<open>float\<close> raises \<open>OverflowError\<close>, and it is \<open>JBigInt n\<close>.
  \<open>JObj\<close> holds the items of the dictionary (distinct keys), \<open>JObj []\<close> is the
  empty dictionary \<open>{}\<close>.
\<close>

datatype 'f json =
    JNull
  | JBool bool
  | JNum 'f
  | JBigInt int
  | JStr string
  | JArr "'f json list"
  | JObj "(string \<times> 'f json) list"

text \<open>
  The built-ins \<open>float\<close> and \<open>int\<close> on a string: the value, or \<open>None\<close> where
  Python raises \<open>ValueError\<close>.
\<close>

record 'f builtins =
  float_of_str :: "string \<Rightarrow> 'f option"
  int_of_str :: "string \<Rightarrow> int option"

record credentials =
  api_key :: string
  secret :: string
  passphrase :: string
  base_url :: string

definition init_checker :: "string \<Rightarrow> string \<Rightarrow> string \<Rightarrow> bool \<Rightarrow> credentials" where
  "init_checker key sec pass is_testnet =
     \<lparr>api_key = key, secret = sec, passphrase = pass,
      base_url = (if is_testnet then ''https://testnet.omni.apex.exchange/api''
                  else ''https://omni.apex.exchange/api'')\<rparr>"

datatype http_verb = HTTP_GET | HTTP_POST

record request =
  verb :: http_verb
  url :: string
  headers :: "(string \<times> string) list"
  json_body :: "params option"
  timeout :: int

text \<open>
  A response: its status code and what \<open>response.json()\<close> does, which is to return
  the parsed body or to raise.
\<close>

record 'f response =
  status_code :: nat
  json_result :: "py_error + 'f json"

text \<open>What the script prints, one value per \<open>print\<close> statement.\<close>

datatype 'f line =
    Api_request_failed py_error
  | Fetching_account_data
  | Failed_to_fetch_account_data
  | Spot_header
  | Contract_header
  | Positions_header
  | Balance_line "'f json" 'f 'f
  | Position_line "'f json" "'f json" 'f 'f

text \<open>\<open>except requests.exceptions.RequestException\<close> catches these.\<close>

fun is_request_exception :: "py_error \<Rightarrow> bool" where
  "is_request_exception RequestException = True"
| "is_request_exception Timeout = True"
| "is_request_exception ConnectionError = True"
| "is_request_exception HTTPError = True"
| "is_request_exception JSONDecodeError = True"
| "is_request_exception _ = False"

text \<open>
  \<open>response.raise_for_status()\<close> of the requests library raises \<open>HTTPError\<close> for
  the status codes 400 to 599 and returns for every other code.
\<close>

definition raise_for_status :: "'f response \<Rightarrow> py_error + unit" where
  "raise_for_status r =
     (if 400 \<le> status_code r \<and> status_code r < 600 then Inl HTTPError else Inr ())"

text \<open>Sequencing of computations that may raise.\<close>

definition then_do :: "'e + 'a \<Rightarrow> ('a \<Rightarrow> 'e + 'b) \<Rightarrow> 'e + 'b" where
  "then_do m f = (case m of Inl e \<Rightarrow> Inl e | Inr x \<Rightarrow> f x)"

subsection \<open>\<open>_make_request\<close>\<close>

text \<open>Line 42: the message that is signed.\<close>

definition signature_message :: "string \<Rightarrow> string \<Rightarrow> string \<Rightarrow> string \<Rightarrow> string" where
  "signature_message timestamp method path data = timestamp @ method @ path @ data"

text \<open>
  Lines 59 to 70: the path and the query string handed to the signer.  \<open>params\<close> is
  \<open>None\<close> when the caller passes no dictionary; \<open>None\<close> and the empty dictionary
  are both false in \<open>method == "GET" and params\<close>.
\<close>

definition path_and_query :: "string \<Rightarrow> string \<Rightarrow> params option \<Rightarrow> string \<times> string" where
  "path_and_query method endpoint params =
     (let path = ''/v3'' @ endpoint;
          query_string = []
      in case params of
           None \<Rightarrow> (path, query_string)
         | Some ps \<Rightarrow>
             if method = ''GET'' \<and> ps \<noteq> [] then
               (let query_params = query_params_of ps
                in if query_params \<noteq> []
                   then (path @ ''?'' @ join ''&'' query_params, ''&'' @ join ''&'' query_params)
                   else (path, query_string))
             else (path, query_string))"

text \<open>
  Lines 58 to 72: the message whose signature goes into the headers.  \<open>now\<close> is
  \<open>int(time.time() * 1000)\<close>.
\<close>

definition signed_message :: "int \<Rightarrow> string \<Rightarrow> string \<Rightarrow> params option \<Rightarrow> string" where
  "signed_message now method endpoint params =
     (let (path, query_string) = path_and_query method endpoint params
      in signature_message (str_of_int now) method path query_string)"

text \<open>
  Lines 58 to 82 and the arguments of the call in lines 86 to 89: the request that is
  sent, given the timeout.
\<close>

definition build_request ::
  "credentials \<Rightarrow> int \<Rightarrow> string \<Rightarrow> string \<Rightarrow> params option \<Rightarrow> int \<Rightarrow> request" where
  "build_request self now method endpoint params tmo =
     (let timestamp = str_of_int now;
          (path, query_string) = path_and_query method endpoint params;
          signature = generate_signature (secret self) timestamp method path query_string;
          hdrs = [(''APEX-SIGNATURE'', signature),
                  (''APEX-TIMESTAMP'', timestamp),
                  (''APEX-API-KEY'', api_key self),
                  (''APEX-PASSPHRASE'', passphrase self),
                  (''Content-Type'', ''application/json'')];
          u = base_url self @ path
      in if method = ''GET''
         then \<lparr>verb = HTTP_GET, url = u, headers = hdrs, json_body = None, timeout = tmo\<rparr>
         else \<lparr>verb = HTTP_POST, url = u, headers = hdrs,
               json_body = Some (case params of None \<Rightarrow> [] | Some ps \<Rightarrow> ps), timeout = tmo\<rparr>)"

text \<open>
  The outside of one call: the clock, the variable \<open>REQUEST_TIMEOUT\<close> of the
  environment, and the network, which answers a request with a response or with an
  exception raised by \<open>requests.get\<close> or \<open>requests.post\<close>.
\<close>

record 'f world =
  now_ms :: int
  request_timeout :: "string option"
  http :: "request \<Rightarrow> py_error + 'f response"

text \<open>\<open>int(os.getenv('REQUEST_TIMEOUT', 30))\<close>\<close>

definition read_timeout :: "'f builtins \<Rightarrow> string option \<Rightarrow> py_error + int" where
  "read_timeout B env =
     (case env of
        None \<Rightarrow> Inr 30
      | Some s \<Rightarrow> (case int_of_str B s of None \<Rightarrow> Inl ValueError | Some t \<Rightarrow> Inr t))"

text \<open>The body of the \<open>try\<close> block, lines 85 to 92.\<close>

definition try_block ::
  "'f builtins \<Rightarrow> credentials \<Rightarrow> 'f world \<Rightarrow> string \<Rightarrow> string \<Rightarrow> params option \<Rightarrow>
   py_error + 'f json" where
  "try_block B self w method endpoint params =
     then_do (read_timeout B (request_timeout w)) (\<lambda>tmo.
     then_do (http w (build_request self (now_ms w) method endpoint params tmo)) (\<lambda>response.
     then_do (raise_for_status response) (\<lambda>_.
     json_result response)))"

text \<open>
  \<open>_make_request\<close>: the printed lines and the returned value, or the exception that
  leaves the function.
\<close>

definition make_request ::
  "'f builtins \<Rightarrow> credentials \<Rightarrow> 'f world \<Rightarrow> string \<Rightarrow> string \<Rightarrow> params option \<Rightarrow>
   py_error + 'f line list \<times> 'f json" where
  "make_request B self w method endpoint params =
     (case try_block B self w method endpoint params of
        Inr v \<Rightarrow> Inr ([], v)
      | Inl e \<Rightarrow> if is_request_exception e then Inr ([Api_request_failed e], JObj [])
                 else Inl e)"

definition get_account_data ::
  "'f builtins \<Rightarrow> credentials \<Rightarrow> 'f world \<Rightarrow> py_error + 'f line list \<times> 'f json" where
  "get_account_data B self w = make_request B self w ''GET'' ''/account'' None"

definition get_account_balance ::
  "'f builtins \<Rightarrow> credentials \<Rightarrow> 'f world \<Rightarrow> py_error + 'f line list \<times> 'f json" where
  "get_account_balance B self w = make_request B self w ''GET'' ''/account-balance'' None"

subsection \<open>Notions used in the statements about requests\<close>

text \<open>
  The string that lines 69 and 70 compute twice, how one parameter is rendered, which
  parameters are kept, and the signature of a whole message.
\<close>

definition canonical_query :: "params \<Rightarrow> string" where
  "canonical_query ps = join ''&'' (query_params_of ps)"

definition render_param :: "string \<times> pyval \<Rightarrow> string" where
  "render_param kv = fst kv @ ''='' @ py_str (snd kv)"

definition present :: "string \<times> pyval \<Rightarrow> bool" where
  "present kv = (snd kv \<noteq> PNone)"

definition sign_message :: "string \<Rightarrow> string \<Rightarrow> string" where
  "sign_message sec message =
     decode_ascii (standard_b64encode
       (hmac_sha256 (standard_b64encode (encode_utf8 sec)) (encode_utf8 message)))"

section \<open>apex.py: the balance aggregator\<close>

subsection \<open>Python operations on JSON values\<close>

text \<open>
  The arithmetic of \<open>float\<close> is left open: \<open>'f\<close> is any type with \<open>0\<close>, \<open>1\<close>,
  \<open>+\<close>, \<open>-\<close> and \<open>*\<close>, and no law of arithmetic is assumed of them, so what is
  proved holds for the rounding arithmetic of Python's floats.
\<close>

text \<open>Truth value, as \<open>not x\<close> and \<open>if x\<close> test it.\<close>

fun truthy :: "'f::zero json \<Rightarrow> bool" where
  "truthy JNull = False"
| "truthy (JBool b) = b"
| "truthy (JNum x) = (x \<noteq> 0)"
| "truthy (JBigInt n) = (n \<noteq> 0)"
| "truthy (JStr s) = (s \<noteq> [])"
| "truthy (JArr xs) = (xs \<noteq> [])"
| "truthy (JObj kvs) = (kvs \<noteq> [])"

text \<open>\<open>d.get(key, default)\<close>: only a dictionary has the method.\<close>

fun py_get :: "'f json \<Rightarrow> string \<Rightarrow> 'f json \<Rightarrow> py_error + 'f json" where
  "py_get (JObj kvs) k dflt = Inr (case map_of kvs k of None \<Rightarrow> dflt | Some v \<Rightarrow> v)"
| "py_get _ k dflt = Inl AttributeError"

text \<open>
  \<open>float(x)\<close>: a float is returned as it is, \<open>True\<close> and \<open>False\<close> are 1 and 0, a
  string is parsed or rejected with \<open>ValueError\<close>, an integer beyond the range of
  floats is rejected with \<open>OverflowError\<close>, and \<open>None\<close>, a list or a dictionary
  with \<open>TypeError\<close>.
\<close>

fun py_float :: "'f::{zero,one} builtins \<Rightarrow> 'f json \<Rightarrow> py_error + 'f" where
  "py_float B (JNum x) = Inr x"
| "py_float B (JBool b) = Inr (if b then 1 else 0)"
| "py_float B (JStr s) = (case float_of_str B s of None \<Rightarrow> Inl ValueError | Some x \<Rightarrow> Inr x)"
| "py_float B (JBigInt n) = Inl OverflowError"
| "py_float B _ = Inl TypeError"

text \<open>\<open>float(d.get(key, 0))\<close>\<close>

definition get_float :: "'f::{zero,one} builtins \<Rightarrow> 'f json \<Rightarrow> string \<Rightarrow> py_error + 'f" where
  "get_float B d k = then_do (py_get d k (JNum 0)) (py_float B)"

text \<open>
  The elements a \<open>for\<close> loop runs over: those of a list, the keys of a dictionary, the
  characters of a string; other values are not iterable.
\<close>

fun py_iter :: "'f json \<Rightarrow> py_error + 'f json list" where
  "py_iter (JArr xs) = Inr xs"
| "py_iter (JObj kvs) = Inr (map (\<lambda>kv. JStr (fst kv)) kvs)"
| "py_iter (JStr s) = Inr (map (\<lambda>c. JStr [c]) s)"
| "py_iter _ = Inl TypeError"

text \<open>
  A dictionary key must be hashable; lists and dictionaries are not.  \<open>True\<close> and
  \<open>False\<close> are the same keys as \<open>1\<close> and \<open>0\<close>.
\<close>

fun hashable :: "'f json \<Rightarrow> bool" where
  "hashable (JArr xs) = False"
| "hashable (JObj kvs) = False"
| "hashable _ = True"

fun dict_key :: "'f::{zero,one} json \<Rightarrow> 'f json" where
  "dict_key (JBool b) = JNum (if b then 1 else 0)"
| "dict_key v = v"

subsection \<open>\<open>calculate_total_balance\<close>\<close>

record 'f wallet =
  balance :: 'f
  available :: 'f
  pending_deposit :: 'f
  pending_withdraw :: 'f

record 'f position =
  symbol :: "'f json"
  side :: "'f json"
  psize :: 'f
  entry_price :: 'f
  pvalue :: 'f

text \<open>
  The report.  The three fields of \<open>calculated_totals\<close> are fields of the record;
  \<open>initial_margin\<close> and \<open>maintenance_margin\<close> are keys the script adds only in the
  branch of line 199.
\<close>

record 'f report =
  timestamp :: string
  spot_balances :: "'f json \<rightharpoonup> 'f wallet"
  contract_balances :: "'f json \<rightharpoonup> 'f wallet"
  total_equity :: 'f
  available_balance :: 'f
  positions_summary :: "'f position list"
  initial_margin :: "'f option"
  maintenance_margin :: "'f option"
  spot_total :: 'f
  contract_total :: 'f
  combined_liquid_assets :: 'f

text \<open>What the function returns: the empty dictionary \<open>{}\<close> or the report.\<close>

datatype 'f returned = Empty_dict | Report "'f report"

text \<open>
  Lines 133 to 138 and 159 to 164: the identifier and the amounts of one wallet.
  \<open>id_key\<close> is \<open>"tokenId"\<close> for a spot wallet and \<open>"asset"\<close> for a contract wallet.
\<close>

definition read_wallet ::
  "'f::{zero,one,plus,minus} builtins \<Rightarrow> string \<Rightarrow> 'f json \<Rightarrow> py_error + 'f json \<times> 'f wallet" where
  "read_wallet B id_key w =
     then_do (py_get w id_key (JStr ''Unknown'')) (\<lambda>token.
     then_do (get_float B w ''balance'') (\<lambda>bal.
     then_do (get_float B w ''pendingDepositAmount'') (\<lambda>pd.
     then_do (get_float B w ''pendingWithdrawAmount'') (\<lambda>pw.
       Inr (token, \<lparr>balance = bal, available = bal - pw + pd,
                    pending_deposit = pd, pending_withdraw = pw\<rparr>)))))"

text \<open>The state of a loop over wallets: the dictionary, the running total, the output.\<close>

record 'f wallets_state =
  balances :: "'f json \<rightharpoonup> 'f wallet"
  total :: 'f
  printed :: "'f line list"

definition stablecoin_ids :: "'f json list" where
  "stablecoin_ids = [JStr ''1'', JStr ''17'', JStr ''140'']"

text \<open>The body of the loop of lines 132 to 151.\<close>

definition spot_step ::
  "'f::{zero,one,plus,minus} builtins \<Rightarrow> 'f json \<Rightarrow> 'f wallets_state \<Rightarrow>
   py_error + 'f wallets_state" where
  "spot_step B w s =
     then_do (read_wallet B ''tokenId'' w) (\<lambda>(token, rec).
       if \<not> hashable token then Inl TypeError
       else Inr \<lparr>balances = (balances s)(dict_key token \<mapsto> rec),
                 total = (if token \<in> set stablecoin_ids then total s + available rec
                          else total s),
                 printed = printed s @ [Balance_line token (balance rec) (available rec)]\<rparr>)"

text \<open>The body of the loop of lines 158 to 174.\<close>

definition contract_step ::
  "'f::{zero,one,plus,minus} builtins \<Rightarrow> 'f json \<Rightarrow> 'f wallets_state \<Rightarrow>
   py_error + 'f wallets_state" where
  "contract_step B w s =
     then_do (read_wallet B ''asset'' w) (\<lambda>(asset, rec).
       if \<not> hashable asset then Inl TypeError
       else Inr \<lparr>balances = (balances s)(dict_key asset \<mapsto> rec),
                 total = total s + available rec,
                 printed = printed s @ [Balance_line asset (balance rec) (available rec)]\<rparr>)"

text \<open>A \<open>for\<close> loop whose body may raise.\<close>

fun for_each :: "('a \<Rightarrow> 's \<Rightarrow> py_error + 's) \<Rightarrow> 'a list \<Rightarrow> 's \<Rightarrow> py_error + 's" where
  "for_each body [] s = Inr s"
| "for_each body (x # xs) s = then_do (body x s) (for_each body xs)"

text \<open>The body of the loop of lines 180 to 196.\<close>

definition position_step ::
  "'f::{zero,one,plus,minus,times} builtins \<Rightarrow> 'f json \<Rightarrow>
   'f position list \<times> 'f line list \<Rightarrow> py_error + 'f position list \<times> 'f line list" where
  "position_step B p s =
     then_do (get_float B p ''size'') (\<lambda>sz0.
       if sz0 \<noteq> 0 then
         then_do (py_get p ''symbol'' (JStr ''Unknown'')) (\<lambda>sym.
         then_do (py_get p ''side'' (JStr ''Unknown'')) (\<lambda>sd.
         then_do (get_float B p ''size'') (\<lambda>sz.
         then_do (get_float B p ''entryPrice'') (\<lambda>ep.
           Inr (fst s @ [\<lparr>symbol = sym, side = sd, psize = sz, entry_price = ep,
                           pvalue = sz * ep\<rparr>],
                snd s @ [Position_line sym sd sz ep])))))
       else Inr s)"

text \<open>
  Lines 114 to 212: the function after the two requests.  \<open>now_iso\<close> is
  \<open>datetime.now().isoformat()\<close>.  The result is the printed lines and the returned
  value, or the exception that leaves the function.
\<close>

definition aggregate_balances ::
  "'f::{zero,one,plus,minus,times} builtins \<Rightarrow> string \<Rightarrow> 'f json \<Rightarrow> 'f json \<Rightarrow>
   py_error + 'f line list \<times> 'f returned" where
  "aggregate_balances B now_iso account_data balance_data =
     (if \<not> truthy account_data \<or> \<not> truthy balance_data
      then Inr ([Failed_to_fetch_account_data], Empty_dict)
      else
        then_do (py_get account_data ''spotWallets'' (JArr [])) (\<lambda>spot_wallets.
        then_do (py_iter spot_wallets) (\<lambda>sws.
        then_do (for_each (spot_step B) sws
                   \<lparr>balances = Map.empty, total = 0, printed = [Spot_header]\<rparr>) (\<lambda>spot.
        then_do (py_get account_data ''contractWallets'' (JArr [])) (\<lambda>contract_wallets.
        then_do (py_iter contract_wallets) (\<lambda>cws.
        then_do (for_each (contract_step B) cws
                   \<lparr>balances = Map.empty, total = 0,
                    printed = printed spot @ [Contract_header]\<rparr>) (\<lambda>contract.
        then_do (py_get account_data ''positions'' (JArr [])) (\<lambda>positions.
        then_do (py_iter positions) (\<lambda>ps.
        then_do (for_each (position_step B) ps
                   ([], printed contract @ [Positions_header])) (\<lambda>(summary, out).
        then_do (if truthy balance_data then
                   then_do (get_float B balance_data ''totalEquityValue'') (\<lambda>te.
                   then_do (get_float B balance_data ''availableBalance'') (\<lambda>ab.
                   then_do (get_float B balance_data ''initialMargin'') (\<lambda>im.
                   then_do (get_float B balance_data ''maintenanceMargin'') (\<lambda>mm.
                     Inr (te, ab, Some im, Some mm)))))
                 else Inr (0, 0, None, None)) (\<lambda>(te, ab, im, mm).
          Inr (out,
               Report \<lparr>timestamp = now_iso,
                       spot_balances = balances spot,
                       contract_balances = balances contract,
                       total_equity = te,
                       available_balance = ab,
                       positions_summary = summary,
                       initial_margin = im,
                       maintenance_margin = mm,
                       spot_total = total spot,
                       contract_total = total contract,
                       combined_liquid_assets = total spot + total contract\<rparr>))))))))))))"

text \<open>
  \<open>calculate_total_balance\<close>: the two requests, each with its own reading of the clock
  and its own answer of the network, then the aggregation.
\<close>

definition calculate_total_balance ::
  "'f::{zero,one,plus,minus,times} builtins \<Rightarrow> credentials \<Rightarrow> 'f world \<Rightarrow> 'f world \<Rightarrow> string \<Rightarrow>
   py_error + 'f line list \<times> 'f returned" where
  "calculate_total_balance B self w1 w2 now_iso =
     then_do (get_account_data B self w1) (\<lambda>(out1, account_data).
     then_do (get_account_balance B self w2) (\<lambda>(out2, balance_data).
     then_do (aggregate_balances B now_iso account_data balance_data) (\<lambda>(out3, r).
       Inr ([Fetching_account_data] @ out1 @ out2 @ out3, r))))"

subsection \<open>Decimal numerals\<close>

text \<open>
  An instance of the built-ins for examples: \<open>int\<close> and \<open>float\<close> on plain decimal
  numerals (an optional sign, digits, and for \<open>float\<close> an optional fraction), with
  rational numbers for floats.  Python reads such a numeral as the same integer, and as
  the same number when a float holds it exactly; sums and differences of floats are
  exact when the result is held exactly, as for the amounts in the examples.  Every
  other string is rejected here, though Python accepts more forms (surrounding
  whitespace, underscores between digits, exponents, \<open>inf\<close> and \<open>nan\<close>); a string
  with a letter other than those of these forms, such as \<open>abc\<close>, Python rejects too.
\<close>

definition digit_val :: "char \<Rightarrow> nat option" where
  "digit_val c = (if CHR ''0'' \<le> c \<and> c \<le> CHR ''9'' then Some (of_char c - 48) else None)"

fun digits_val :: "string \<Rightarrow> nat \<Rightarrow> nat option" where
  "digits_val [] acc = Some acc"
| "digits_val (c # cs) acc =
     (case digit_val c of None \<Rightarrow> None | Some d \<Rightarrow> digits_val cs (10 * acc + d))"

definition nat_of_decimal :: "string \<Rightarrow> nat option" where
  "nat_of_decimal s = (if s = [] then None else digits_val s 0)"

definition int_of_decimal :: "string \<Rightarrow> int option" where
  "int_of_decimal s =
     (case s of
        [] \<Rightarrow> None
      | c # cs \<Rightarrow>
          if c = CHR ''-'' then map_option (\<lambda>n. - int n) (nat_of_decimal cs)
          else if c = CHR ''+'' then map_option int (nat_of_decimal cs)
          else map_option int (nat_of_decimal s))"

definition unsigned_rat_of_decimal :: "string \<Rightarrow> rat option" where
  "unsigned_rat_of_decimal s =
     (let ip = takeWhile (\<lambda>c. c \<noteq> CHR ''.'') s;
          rest = dropWhile (\<lambda>c. c \<noteq> CHR ''.'') s
      in case rest of
           [] \<Rightarrow> map_option of_nat (nat_of_decimal ip)
         | _ # fp \<Rightarrow>
             if ip = [] \<and> fp = [] then None
             else (case (digits_val ip 0, digits_val fp 0) of
                     (Some i, Some f) \<Rightarrow> Some (of_nat i + of_nat f / of_nat (10 ^ length fp))
                   | _ \<Rightarrow> None))"

definition rat_of_decimal :: "string \<Rightarrow> rat option" where
  "rat_of_decimal s =
     (case s of
        [] \<Rightarrow> None
      | c # cs \<Rightarrow>
          if c = CHR ''-'' then map_option uminus (unsigned_rat_of_decimal cs)
          else if c = CHR ''+'' then unsigned_rat_of_decimal cs
          else unsigned_rat_of_decimal s)"

definition decimal_builtins :: "rat builtins" where
  "decimal_builtins = \<lparr>float_of_str = rat_of_decimal, int_of_str = int_of_decimal\<rparr>"

subsection \<open>Notions used in the statements about aggregation\<close>

text \<open>
  The wallets the two loops run over, and the key and the allow-list test of a record.
\<close>

definition spot_wallets_of :: "'f json \<Rightarrow> py_error + 'f json list" where
  "spot_wallets_of account_data = then_do (py_get account_data ''spotWallets'' (JArr [])) py_iter"

definition contract_wallets_of :: "'f json \<Rightarrow> py_error + 'f json list" where
  "contract_wallets_of account_data =
     then_do (py_get account_data ''contractWallets'' (JArr [])) py_iter"

definition keyed :: "'f::{zero,one} json \<times> 'f wallet \<Rightarrow> 'f json \<times> 'f wallet" where
  "keyed tr = (dict_key (fst tr), snd tr)"

definition is_stablecoin :: "'f json \<times> 'f wallet \<Rightarrow> bool" where
  "is_stablecoin tr = (fst tr \<in> set stablecoin_ids)"

text \<open>
  Filling in the amount fields a wallet lacks with the number 0: in a wallet, in a list
  of wallets, and in the two wallet lists of an account response.
\<close>

definition amount_fields :: "string list" where
  "amount_fields = [''balance'', ''pendingDepositAmount'', ''pendingWithdrawAmount'']"

definition fill_field :: "string \<Rightarrow> (string \<times> 'f::zero json) list \<Rightarrow> (string \<times> 'f json) list" where
  "fill_field k kvs = (if map_of kvs k = None then kvs @ [(k, JNum 0)] else kvs)"

definition fill_wallet :: "'f::zero json \<Rightarrow> 'f json" where
  "fill_wallet w =
     (case w of
        JObj kvs \<Rightarrow>
          JObj (fill_field ''balance'' (fill_field ''pendingDepositAmount''
                 (fill_field ''pendingWithdrawAmount'' kvs)))
      | _ \<Rightarrow> w)"

definition fill_wallets :: "'f::zero json \<Rightarrow> 'f json" where
  "fill_wallets v = (case v of JArr ws \<Rightarrow> JArr (map fill_wallet ws) | _ \<Rightarrow> v)"

definition fill_account :: "'f::zero json \<Rightarrow> 'f json" where
  "fill_account a =
     (case a of
        JObj akvs \<Rightarrow>
          JObj (map (\<lambda>kv. if fst kv = ''spotWallets'' \<or> fst kv = ''contractWallets''
                           then (fst kv, fill_wallets (snd kv)) else kv) akvs)
      | _ \<Rightarrow> a)"

text \<open>A record has 0 for each amount field that the wallet lacks.\<close>

definition zero_where_missing :: "(string \<times> 'f json) list \<Rightarrow> 'f::zero wallet \<Rightarrow> bool" where
  "zero_where_missing kvs rec =
     ((map_of kvs ''balance'' = None \<longrightarrow> balance rec = 0) \<and>
      (map_of kvs ''pendingDepositAmount'' = None \<longrightarrow> pending_deposit rec = 0) \<and>
      (map_of kvs ''pendingWithdrawAmount'' = None \<longrightarrow> pending_withdraw rec = 0))"

text \<open>
  Every record of a dictionary of wallet records was read from a wallet object of the
  list, under the wallet's identifier, with 0 for the amount fields the wallet lacks.
\<close>

definition records_read_from ::
  "'f::{zero,one,plus,minus} builtins \<Rightarrow> string \<Rightarrow> 'f json list \<Rightarrow> ('f json \<rightharpoonup> 'f wallet) \<Rightarrow> bool" where
  "records_read_from B id_key ws m =
     (\<forall>k rec. m k = Some rec \<longrightarrow>
        (\<exists>kvs t. JObj kvs \<in> set ws \<and> read_wallet B id_key (JObj kvs) = Inr (t, rec) \<and>
                 dict_key t = k \<and> zero_where_missing kvs rec))"

text \<open>The formula of \<open>available\<close>, for all records of a dictionary.\<close>

definition formula_holds :: "('k \<rightharpoonup> 'f::{plus,minus} wallet) \<Rightarrow> bool" where
  "formula_holds m =
     (\<forall>k rec. m k = Some rec \<longrightarrow>
        available rec = balance rec - pending_withdraw rec + pending_deposit rec)"

subsection \<open>Examples\<close>

definition example_spot_account :: "rat json" where
  "example_spot_account =
     JObj [(''spotWallets'',
            JArr [JObj [(''tokenId'', JStr ''1''), (''balance'', JStr ''100.5''),
                        (''pendingDepositAmount'', JStr ''0''),
                        (''pendingWithdrawAmount'', JStr ''10'')]])]"

definition example_params :: params where
  "example_params = [(''symbol'', PStr ''BTC-USDT''), (''limit'', PInt 20), (''page'', PNone),
     (''Limit'', PBool True)]"

definition example_params_reordered :: params where
  "example_params_reordered = [(''Limit'', PBool True), (''page'', PNone), (''limit'', PInt 20),
     (''symbol'', PStr ''BTC-USDT'')]"

definition example_credentials :: credentials where
  "example_credentials = init_checker ''key'' ''secret'' ''pass'' False"

definition example_world :: "(py_error + rat response) \<Rightarrow> rat world" where
  "example_world reply = \<lparr>now_ms = 1700000000000, request_timeout = None, http = (\<lambda>_. reply)\<rparr>"

definition example_balance :: "rat json" where
  "example_balance = JObj [(''totalEquityValue'', JStr ''250.25'')]"

definition example_two_wallets :: "rat json" where
  "example_two_wallets =
     JObj [(''spotWallets'',
            JArr [JObj [(''tokenId'', JStr ''1''), (''balance'', JStr ''100.5''),
                        (''pendingDepositAmount'', JStr ''0''),
                        (''pendingWithdrawAmount'', JStr ''10'')],
                  JObj [(''tokenId'', JStr ''36''), (''balance'', JStr ''5'')]])]"

definition example_bare_wallet :: "rat json" where
  "example_bare_wallet = JObj [(''spotWallets'', JArr [JObj [(''tokenId'', JStr ''1'')]])]"

definition example_malformed :: "rat json \<Rightarrow> rat json" where
  "example_malformed v =
     JObj [(''spotWallets'', JArr [JObj [(''tokenId'', JStr ''1''), (''balance'', v)]])]"

definition example_overflow :: "rat json" where
  "example_overflow =
     JObj [(''contractWallets'',
            JArr [JObj [(''asset'', JStr ''USDT''),
                        (''pendingWithdrawAmount'', JBigInt (2 ^ 1024))]])]"

definition example_reply :: "rat json \<Rightarrow> py_error + rat response" where
  "example_reply v = Inr \<lparr>status_code = 200, json_result = Inr v\<rparr>"

section \<open>Properties of the account poll loop\<close>

declare poll_loop.simps [simp del]

lemma client_after_shift: "client_after g (snd (g c)) n = client_after g c (Suc n)"
  by (induction n) simp_all

lemma answer_shift: "answer g (snd (g c)) i = answer g c (Suc i)"
  unfolding answer_def client_after_shift ..

lemma waits_0: "waits j 0 = []" by (simp add: waits_def)

lemma waits_Suc: "waits j (Suc n) = [Lookup, Print_still_waiting (Suc j) max_attempts, Sleep 6] @ waits (Suc j) n"
  by (simp add: waits_def upt_rec)

lemma poll_body_None:
  "fst (g (client s)) = None \<Longrightarrow>
   poll_body g s = \<lparr>account = None, attempt = Suc (attempt s), client = snd (g (client s)),
     trace = trace s @ [Lookup, Print_still_waiting (Suc (attempt s)) max_attempts, Sleep 6]\<rparr>"
  by (cases "g (client s)") (simp add: poll_body_def)

lemma poll_body_Some:
  "fst (g (client s)) = Some a \<Longrightarrow>
   poll_body g s = \<lparr>account = Some a, attempt = Suc (attempt s), client = snd (g (client s)),
     trace = trace s @ [Lookup]\<rparr>"
  by (cases "g (client s)") (simp add: poll_body_def)

lemma poll_loop_all_none:
  "account s = None \<Longrightarrow> attempt s + n = max_attempts \<Longrightarrow>
   (\<forall>i<n. answer g (client s) i = None) \<Longrightarrow>
   poll_loop g s = \<lparr>account = None, attempt = max_attempts,
      client = client_after g (client s) n, trace = trace s @ waits (attempt s) n\<rparr>"
proof (induction n arbitrary: s)
  case 0
  then have "poll_loop g s = s" by (subst poll_loop.simps) simp
  with 0 show ?case by (simp add: waits_0)
next
  case (Suc n)
  from Suc.prems have lt: "attempt s < max_attempts" by simp
  from Suc.prems have a0: "fst (g (client s)) = None" by (auto simp: answer_def dest: spec[of _ 0])
  let ?s = "poll_body g s"
  have b: "?s = \<lparr>account = None, attempt = Suc (attempt s), client = snd (g (client s)),
     trace = trace s @ [Lookup, Print_still_waiting (Suc (attempt s)) max_attempts, Sleep 6]\<rparr>"
    using a0 by (rule poll_body_None)
  have rest: "\<forall>i<n. answer g (client ?s) i = None"
    using Suc.prems(3) by (simp add: b answer_shift)
  have "poll_loop g s = poll_loop g ?s"
    using Suc.prems(1) lt by (subst poll_loop.simps) simp
  also have "\<dots> = \<lparr>account = None, attempt = max_attempts,
      client = client_after g (client ?s) n, trace = trace ?s @ waits (attempt ?s) n\<rparr>"
    using Suc.prems(2) rest by (intro Suc.IH) (simp_all add: b)
  finally show ?case by (simp add: b client_after_shift waits_Suc)
qed

lemma poll_loop_found:
  "account s = None \<Longrightarrow> attempt s + m < max_attempts \<Longrightarrow>
   (\<forall>i<m. answer g (client s) i = None) \<Longrightarrow> answer g (client s) m = Some a \<Longrightarrow>
   poll_loop g s = \<lparr>account = Some a, attempt = attempt s + Suc m,
      client = client_after g (client s) (Suc m), trace = trace s @ waits (attempt s) m @ [Lookup]\<rparr>"
proof (induction m arbitrary: s)
  case 0
  let ?s = "poll_body g s"
  from 0 have a0: "fst (g (client s)) = Some a" by (simp add: answer_def)
  have b: "?s = \<lparr>account = Some a, attempt = Suc (attempt s), client = snd (g (client s)),
     trace = trace s @ [Lookup]\<rparr>"
    using a0 by (rule poll_body_Some)
  have "poll_loop g s = poll_loop g ?s"
    using 0 by (subst poll_loop.simps) simp
  also have "\<dots> = ?s" by (subst poll_loop.simps) (simp add: b)
  finally show ?case by (simp add: b waits_0)
next
  case (Suc m)
  from Suc.prems have lt: "attempt s < max_attempts" by simp
  from Suc.prems have a0: "fst (g (client s)) = None" by (auto simp: answer_def dest: spec[of _ 0])
  let ?s = "poll_body g s"
  have b: "?s = \<lparr>account = None, attempt = Suc (attempt s), client = snd (g (client s)),
     trace = trace s @ [Lookup, Print_still_waiting (Suc (attempt s)) max_attempts, Sleep 6]\<rparr>"
    using a0 by (rule poll_body_None)
  have rest: "\<forall>i<m. answer g (client ?s) i = None"
    using Suc.prems(3) by (simp add: b answer_shift)
  have last: "answer g (client ?s) m = Some a"
    using Suc.prems(4) by (simp add: b answer_shift)
  have "poll_loop g s = poll_loop g ?s"
    using Suc.prems(1) lt by (subst poll_loop.simps) simp
  also have "\<dots> = \<lparr>account = Some a, attempt = attempt ?s + Suc m,
      client = client_after g (client ?s) (Suc m), trace = trace ?s @ waits (attempt ?s) m @ [Lookup]\<rparr>"
    using Suc.prems(2) rest last by (intro Suc.IH) (simp_all add: b)
  finally show ?case by (simp add: b client_after_shift waits_Suc del: client_after.simps)
qed

lemma lookups_waits: "lookups (waits j n) = n"
  by (induction n arbitrary: j) (simp_all add: waits_0 waits_Suc lookups_def)

lemma lookups_Cons: "lookups (e # xs) = (if e = Lookup then 1 else 0) + lookups xs"
  by (simp add: lookups_def)

lemma lookups_Nil: "lookups [] = 0"
  by (simp add: lookups_def)

lemma lookups_append: "lookups (xs @ ys) = lookups xs + lookups ys"
  by (simp add: lookups_def)

text \<open>
  C9, amended: in the account poll loop of the deposit flow, when the first 20 lookups
  all return \<open>None\<close> the loop performs exactly 20 lookups (each followed by the wait
  message and a sleep of 6) and the script then raises \<open>ValueError\<close>; when lookup
  number \<open>m + 1\<close> (with \<open>m < 20\<close>) is the first to return a value other than
  \<open>None\<close>, whatever the value, the loop stops after exactly \<open>m + 1\<close> lookups and
  the script goes on to the deposit step with that value as the account.
\<close>

theorem account_poll_loop_bound:
  "((\<forall>i<20. answer g c i = None) \<longrightarrow>
      fetch_account g c = (Print_fetching # waits 0 20, Inl ValueError) \<and>
      lookups (fst (fetch_account g c)) = 20) \<and>
   (m < 20 \<and> (\<forall>i<m. answer g c i = None) \<and> answer g c m = Some a \<longrightarrow>
      fetch_account g c =
        (Print_fetching # waits 0 m @ [Lookup, Print_account_fetched a],
         Inr (a, client_after g c (Suc m))) \<and>
      lookups (fst (fetch_account g c)) = Suc m)"
proof (intro conjI impI)
  assume none: "\<forall>i<20. answer g c i = None"
  have "poll_loop g (poll_init c) = \<lparr>account = None, attempt = max_attempts,
      client = client_after g (client (poll_init c :: ('a, 'b) poll_state)) 20,
      trace = trace (poll_init c :: ('a, 'b) poll_state) @ waits (attempt (poll_init c :: ('a, 'b) poll_state)) 20\<rparr>"
    using none by (intro poll_loop_all_none) (simp_all add: poll_init_def max_attempts_def)
  then show r: "fetch_account g c = (Print_fetching # waits 0 20, Inl ValueError)"
    by (simp add: fetch_account_def poll_init_def)
  show "lookups (fst (fetch_account g c)) = 20"
    unfolding r by (simp add: lookups_Cons lookups_waits)
next
  assume h: "m < 20 \<and> (\<forall>i<m. answer g c i = None) \<and> answer g c m = Some a"
  have "poll_loop g (poll_init c) = \<lparr>account = Some a,
      attempt = attempt (poll_init c :: ('a, 'b) poll_state) + Suc m,
      client = client_after g (client (poll_init c :: ('a, 'b) poll_state)) (Suc m),
      trace = trace (poll_init c :: ('a, 'b) poll_state) @ waits (attempt (poll_init c :: ('a, 'b) poll_state)) m @ [Lookup]\<rparr>"
    using h by (intro poll_loop_found) (simp_all add: poll_init_def max_attempts_def)
  then show r: "fetch_account g c =
        (Print_fetching # waits 0 m @ [Lookup, Print_account_fetched a],
         Inr (a, client_after g c (Suc m)))"
    by (simp add: fetch_account_def poll_init_def del: client_after.simps)
  show "lookups (fst (fetch_account g c)) = Suc m"
    unfolding r by (simp add: lookups_Cons lookups_Nil lookups_append lookups_waits)
qed

text \<open>
  C9 on examples: a mock lookup that never answers, and one that answers at the sixth
  call.
\<close>

theorem account_poll_loop_bound_witness:
  "fetch_account (mock_lookup (\<lambda>i. None :: nat option)) 0 =
     (Print_fetching # waits 0 20, Inl ValueError) \<and>
   lookups (fst (fetch_account (mock_lookup (\<lambda>i. None :: nat option)) 0)) = 20 \<and>
   fetch_account (mock_lookup (\<lambda>i. if i < 5 then None else Some (7::nat))) 0 =
     (Print_fetching # waits 0 5 @ [Lookup, Print_account_fetched 7], Inr (7, 6)) \<and>
   lookups (fst (fetch_account (mock_lookup (\<lambda>i. if i < 5 then None else Some (7::nat))) 0)) = 6"
proof -
  have a: "\<And>i. answer (mock_lookup f) 0 i = f i \<and> client_after (mock_lookup f) 0 i = i" for f :: "nat \<Rightarrow> nat option"
  proof -
    fix i show "answer (mock_lookup f) 0 i = f i \<and> client_after (mock_lookup f) 0 i = i"
      by (induction i) (simp_all add: answer_def mock_lookup_def)
  qed
  show ?thesis
    using account_poll_loop_bound [of "mock_lookup (\<lambda>i. None :: nat option)" 0 5 7]
      account_poll_loop_bound [of "mock_lookup (\<lambda>i. if i < 5 then None else Some (7::nat))" 0 5 7]
    by (simp add: a lookups_Cons lookups_Nil lookups_append lookups_waits del: client_after.simps)
qed

section \<open>Properties of the signer\<close>

lemma encode_utf8_append: "encode_utf8 (a @ b) = encode_utf8 a @ encode_utf8 b"
  by (simp add: encode_utf8_def)

lemma generate_signature_sign_message:
  "generate_signature sec ts method path body =
     sign_message sec (signature_message ts method path body)"
  by (simp add: generate_signature_def sign_message_def signature_message_def)

text \<open>
  C1: for every secret, timestamp, method, path and body, the signer returns the Base64
  encoding of the HMAC-SHA256, keyed with the Base64 encoding of the secret's bytes, of
  the bytes of timestamp, method, path and body put one after the other with nothing
  between them.  So the signature depends on the four parts only through their
  concatenation.  The signer is a function of its five arguments and of nothing else
  (no clock, no randomness), so equal arguments give equal signatures.
\<close>

theorem generate_signature_spec:
  "generate_signature sec ts method path body =
     decode_ascii (standard_b64encode
       (hmac_sha256 (standard_b64encode (encode_utf8 sec))
          (encode_utf8 ts @ encode_utf8 method @ encode_utf8 path @ encode_utf8 body))) \<and>
   generate_signature sec ts method path body =
     generate_signature sec (ts @ method @ path @ body) [] [] []"
  by (simp add: generate_signature_def encode_utf8_append)

section \<open>Properties of the request client\<close>

lemma collect_query_params_eq:
  "collect_query_params items acc = acc @ map render_param (filter present items)"
  by (induction items acc rule: collect_query_params.induct)
     (simp_all add: render_param_def present_def)

lemma query_params_of_eq:
  "query_params_of ps = map render_param (filter present (sort_key fst ps))"
  by (simp add: query_params_of_def sorted_items_def collect_query_params_eq)

lemma filter_same_key:
  "distinct (map fst xs) \<Longrightarrow> kv \<in> set xs \<Longrightarrow> filter (\<lambda>x. fst kv = fst x) xs = [kv]"
proof (induction xs)
  case Nil
  then show ?case by simp
next
  case (Cons x xs)
  from Cons.prems(1) have nx: "fst x \<notin> fst ` set xs" and d: "distinct (map fst xs)"
    by simp_all
  have other: "fst x \<noteq> fst y" if "y \<in> set xs" for y
  proof
    assume "fst x = fst y"
    moreover from that have "fst y \<in> fst ` set xs" by (rule imageI)
    ultimately have "fst x \<in> fst ` set xs" by (rule ssubst)
    with nx show False by (rule notE)
  qed
  show ?case
  proof (cases "kv = x")
    case True
    have "\<forall>y\<in>set xs. \<not> fst x = fst y" by (intro ballI) (rule other)
    then have "filter (\<lambda>y. fst x = fst y) xs = []"
      by (simp only: filter_empty_conv)
    with True show ?thesis by simp
  next
    case False
    with Cons.prems(2) have in_xs: "kv \<in> set xs" by simp
    then have "fst x \<noteq> fst kv" by (rule other)
    then have neq: "\<not> fst kv = fst x" by (rule not_sym)
    have "filter (\<lambda>x. fst kv = fst x) (x # xs) = filter (\<lambda>x. fst kv = fst x) xs"
      using neq by (simp only: filter.simps if_False)
    also have "\<dots> = [kv]" using d in_xs by (rule Cons.IH)
    finally show ?thesis .
  qed
qed

lemma distinct_keys_mset:
  assumes "mset qs = mset ps" and "distinct (map fst ps)"
  shows "distinct (map fst qs)"
proof -
  from assms(1) have "image_mset fst (mset qs) = image_mset fst (mset ps)" by (rule arg_cong)
  then have "mset (map fst qs) = mset (map fst ps)" by simp
  then have "distinct (map fst qs) = distinct (map fst ps)" by (rule mset_eq_imp_distinct_iff)
  with assms(2) show ?thesis by simp
qed

lemma sort_key_fst_unique:
  assumes d: "distinct (map fst ps)" and m: "mset qs = mset ps"
  shows "sort_key fst qs = sort_key fst ps"
proof (rule properties_for_sort_key)
  show "mset (sort_key fst ps) = mset qs" using m by simp
  show "sorted (map fst (sort_key fst ps))" by simp
  fix k assume k: "k \<in> set (sort_key fst ps)"
  have dq: "distinct (map fst qs)" using m d by (rule distinct_keys_mset)
  have "mset (sort_key fst ps) = mset ps" by simp
  then have ds: "distinct (map fst (sort_key fst ps))" using d by (rule distinct_keys_mset)
  from k have "k \<in> set ps" by simp
  then have "k \<in># mset ps" by simp
  then have "k \<in># mset qs" using m by simp
  then have kq: "k \<in> set qs" by simp
  show "filter (\<lambda>x. fst k = fst x) (sort_key fst ps) = filter (\<lambda>x. fst k = fst x) qs"
    using filter_same_key[OF ds k] filter_same_key[OF dq kq] by simp
qed

lemma dict_items_mset:
  assumes "distinct (map fst ps)" "distinct (map fst qs)" "map_of ps = map_of qs"
  shows "mset qs = mset ps"
proof -
  have "set ps = set qs" using assms by (simp add: map_of_inject_set)
  moreover have "distinct ps" "distinct qs"
    using assms(1,2) by (simp_all add: distinct_map)
  ultimately show ?thesis by (simp add: set_eq_iff_mset_eq_distinct)
qed

text \<open>
  C2: the canonical query string of a parameter dictionary is its items sorted by key
  (a rearrangement of the items whose keys ascend), those whose value is \<open>None\<close>
  left out, each rendered as \<open>key=value\<close>, joined by \<open>&\<close>.  Two item lists with
  distinct keys that are the same finite map, in whatever order the items were inserted,
  have the same canonical query string.
\<close>

theorem canonical_query_sorted_independent:
  "canonical_query ps = join ''&'' (map render_param (filter present (sort_key fst ps))) \<and>
   sorted (map fst (sort_key fst ps)) \<and>
   mset (sort_key fst ps) = mset ps \<and>
   (distinct (map fst ps) \<and> distinct (map fst qs) \<and> map_of ps = map_of qs \<longrightarrow>
      canonical_query qs = canonical_query ps)"
proof (intro conjI impI)
  show "canonical_query ps = join ''&'' (map render_param (filter present (sort_key fst ps)))"
    by (simp add: canonical_query_def query_params_of_eq)
  show "sorted (map fst (sort_key fst ps))" by simp
  show "mset (sort_key fst ps) = mset ps" by simp
next
  assume h: "distinct (map fst ps) \<and> distinct (map fst qs) \<and> map_of ps = map_of qs"
  then have "mset qs = mset ps" by (intro dict_items_mset) simp_all
  with h have "sort_key fst qs = sort_key fst ps" by (intro sort_key_fst_unique) simp_all
  then show "canonical_query qs = canonical_query ps"
    by (simp add: canonical_query_def query_params_of_eq)
qed

lemma join_eq_Nil: "join sep xs = [] \<longleftrightarrow> xs = [] \<or> (sep = [] \<or> length xs = 1) \<and> (\<forall>x\<in>set xs. x = [])"
  by (induction sep xs rule: join.induct) auto

lemma render_param_nonempty: "render_param kv \<noteq> []"
  by (simp add: render_param_def)

lemma canonical_query_empty_iff: "canonical_query ps = [] \<longleftrightarrow> query_params_of ps = []"
proof
  assume "canonical_query ps = []"
  then have "query_params_of ps = [] \<or> (\<forall>x\<in>set (query_params_of ps). x = [])"
    by (auto simp: canonical_query_def join_eq_Nil)
  moreover have "\<forall>x\<in>set (query_params_of ps). x \<noteq> []"
    by (auto simp: query_params_of_eq render_param_nonempty)
  ultimately show "query_params_of ps = []" by (cases "query_params_of ps") auto
next
  assume "query_params_of ps = []"
  then show "canonical_query ps = []" by (simp add: canonical_query_def)
qed

lemma path_and_query_get:
  "canonical_query ps \<noteq> [] \<Longrightarrow>
   path_and_query ''GET'' endpoint (Some ps) =
     (''/v3'' @ endpoint @ ''?'' @ canonical_query ps, ''&'' @ canonical_query ps)"
proof -
  assume ne: "canonical_query ps \<noteq> []"
  then have q: "query_params_of ps \<noteq> []" by (simp add: canonical_query_empty_iff)
  then have "ps \<noteq> []" by (auto simp: query_params_of_eq)
  with q show ?thesis by (simp add: path_and_query_def canonical_query_def Let_def)
qed

lemma path_and_query_not_get:
  "method \<noteq> ''GET'' \<Longrightarrow> path_and_query method endpoint params = (''/v3'' @ endpoint, [])"
  by (simp add: path_and_query_def Let_def split: option.splits)

lemma request_signature:
  "map_of (headers (build_request self now method endpoint params tmo)) ''APEX-SIGNATURE'' =
     Some (sign_message (secret self) (signed_message now method endpoint params))"
  by (cases "path_and_query method endpoint params")
     (simp add: build_request_def signed_message_def generate_signature_sign_message Let_def)

text \<open>
  C3: for a GET request whose canonical query string \<open>qs\<close> is not empty, the message
  that is signed is the timestamp, \<open>GET\<close>, \<open>/v3\<close>, the endpoint, \<open>?\<close>, \<open>qs\<close>,
  \<open>&\<close> and \<open>qs\<close> again, in this order: \<open>qs\<close> is in the path after \<open>?\<close> and in
  the data part after \<open>&\<close>.  The signature header of the request is the signature of
  this message, and the URL carries \<open>qs\<close> once.
\<close>

theorem get_signed_message_repeats_query:
  "canonical_query ps \<noteq> [] \<longrightarrow>
     signed_message now ''GET'' endpoint (Some ps) =
       str_of_int now @ ''GET'' @ ''/v3'' @ endpoint @ ''?'' @ canonical_query ps @
       ''&'' @ canonical_query ps \<and>
     map_of (headers (build_request self now ''GET'' endpoint (Some ps) tmo)) ''APEX-SIGNATURE'' =
       Some (sign_message (secret self)
         (str_of_int now @ ''GET'' @ ''/v3'' @ endpoint @ ''?'' @ canonical_query ps @
          ''&'' @ canonical_query ps)) \<and>
     url (build_request self now ''GET'' endpoint (Some ps) tmo) =
       base_url self @ ''/v3'' @ endpoint @ ''?'' @ canonical_query ps"
proof (intro impI conjI)
  assume ne: "canonical_query ps \<noteq> []"
  show m: "signed_message now ''GET'' endpoint (Some ps) =
       str_of_int now @ ''GET'' @ ''/v3'' @ endpoint @ ''?'' @ canonical_query ps @
       ''&'' @ canonical_query ps"
    by (simp add: signed_message_def path_and_query_get[OF ne] signature_message_def)
  show "map_of (headers (build_request self now ''GET'' endpoint (Some ps) tmo)) ''APEX-SIGNATURE'' =
       Some (sign_message (secret self)
         (str_of_int now @ ''GET'' @ ''/v3'' @ endpoint @ ''?'' @ canonical_query ps @
          ''&'' @ canonical_query ps))"
    unfolding request_signature m ..
  show "url (build_request self now ''GET'' endpoint (Some ps) tmo) =
       base_url self @ ''/v3'' @ endpoint @ ''?'' @ canonical_query ps"
    by (simp add: build_request_def path_and_query_get[OF ne] Let_def)
qed

text \<open>
  C10: for a request whose method is not \<open>GET\<close> (the script sends it with
  \<open>requests.post\<close>), the signed message is the timestamp, the method and \<open>/v3\<close>
  with the endpoint, the data part being empty, whatever the parameters are; the
  signature header is the signature of these parts, and the parameters go into the JSON
  body of the request only.
\<close>

theorem post_signature_ignores_body:
  "method \<noteq> ''GET'' \<longrightarrow>
     signed_message now method endpoint params = str_of_int now @ method @ ''/v3'' @ endpoint \<and>
     map_of (headers (build_request self now method endpoint params tmo)) ''APEX-SIGNATURE'' =
       Some (generate_signature (secret self) (str_of_int now) method (''/v3'' @ endpoint) []) \<and>
     verb (build_request self now method endpoint params tmo) = HTTP_POST \<and>
     json_body (build_request self now method endpoint params tmo) =
       Some (case params of None \<Rightarrow> [] | Some ps \<Rightarrow> ps)"
proof (intro impI conjI)
  assume ng: "method \<noteq> ''GET''"
  show m: "signed_message now method endpoint params = str_of_int now @ method @ ''/v3'' @ endpoint"
    by (simp add: signed_message_def path_and_query_not_get[OF ng] signature_message_def)
  show "map_of (headers (build_request self now method endpoint params tmo)) ''APEX-SIGNATURE'' =
       Some (generate_signature (secret self) (str_of_int now) method (''/v3'' @ endpoint) [])"
    by (simp add: build_request_def path_and_query_not_get[OF ng] Let_def)
  show "verb (build_request self now method endpoint params tmo) = HTTP_POST"
    using ng by (simp add: build_request_def path_and_query_not_get[OF ng] Let_def)
  show "json_body (build_request self now method endpoint params tmo) =
       Some (case params of None \<Rightarrow> [] | Some ps \<Rightarrow> ps)"
    using ng by (simp add: build_request_def path_and_query_not_get[OF ng] Let_def)
qed

text \<open>
  C5, amended: once the timeout has been read, if the request raises an exception that
  is a \<open>RequestException\<close> of the requests library (a timeout or a connection error
  among them), or the response has a status from 400 to 599, \<open>_make_request\<close> prints
  the failure and returns the empty dictionary; no exception leaves it.
\<close>

theorem make_request_transport_failure:
  "read_timeout B (request_timeout w) = Inr tmo \<longrightarrow>
     (http w (build_request self (now_ms w) method endpoint params tmo) = Inl e \<and>
        is_request_exception e \<longrightarrow>
      make_request B self w method endpoint params = Inr ([Api_request_failed e], JObj [])) \<and>
     (http w (build_request self (now_ms w) method endpoint params tmo) = Inr r \<and>
        400 \<le> status_code r \<and> status_code r < 600 \<longrightarrow>
      make_request B self w method endpoint params =
        Inr ([Api_request_failed HTTPError], JObj []))"
  by (simp add: make_request_def try_block_def then_do_def raise_for_status_def)

section \<open>Properties of the balance aggregator\<close>

lemma then_do_Inr_iff: "then_do m f = Inr y \<longleftrightarrow> (\<exists>x. m = Inr x \<and> f x = Inr y)"
  by (cases m) (simp_all add: then_do_def)

lemma then_do_Inr: "then_do (Inr x) f = f x"
  by (simp add: then_do_def)

lemma then_do_Inl: "then_do (Inl e) f = Inl e"
  by (simp add: then_do_def)

lemma read_wallet_formula:
  "read_wallet B id_key w = Inr (t, rec) \<Longrightarrow>
   available rec = balance rec - pending_withdraw rec + pending_deposit rec"
  by (auto simp: read_wallet_def then_do_Inr_iff)

lemma for_each_invariant:
  assumes "for_each body xs s = Inr s'" and "P s"
    and "\<And>x s s'. P s \<Longrightarrow> body x s = Inr s' \<Longrightarrow> P s'"
  shows "P s'"
  using assms(1,2)
proof (induction xs arbitrary: s)
  case Nil
  then show ?case by simp
next
  case (Cons x xs)
  from Cons.prems(1) obtain s1 where b: "body x s = Inr s1" and r: "for_each body xs s1 = Inr s'"
    by (auto simp: then_do_Inr_iff)
  from Cons.prems(2) b have "P s1" by (rule assms(3))
  with r show ?case by (rule Cons.IH)
qed

lemma formula_holds_empty: "formula_holds Map.empty"
  by (simp add: formula_holds_def)

lemma formula_holds_upd:
  "formula_holds m \<Longrightarrow>
   available rec = balance rec - pending_withdraw rec + pending_deposit rec \<Longrightarrow>
   formula_holds (m(k \<mapsto> rec))"
  by (simp add: formula_holds_def)

lemma spot_step_formula:
  "formula_holds (balances s) \<Longrightarrow> spot_step B w s = Inr s' \<Longrightarrow> formula_holds (balances s')"
  by (auto simp: spot_step_def then_do_Inr_iff split: if_splits
           intro!: formula_holds_upd dest: read_wallet_formula)

lemma contract_step_formula:
  "formula_holds (balances s) \<Longrightarrow> contract_step B w s = Inr s' \<Longrightarrow> formula_holds (balances s')"
  by (auto simp: contract_step_def then_do_Inr_iff split: if_splits
           intro!: formula_holds_upd dest: read_wallet_formula)

lemma aggregate_ReportD:
  assumes "aggregate_balances B ts a b = Inr (out, Report r)"
  shows "\<exists>sws spot cws contract.
           spot_wallets_of a = Inr sws \<and>
           for_each (spot_step B) sws
             \<lparr>balances = Map.empty, total = 0, printed = [Spot_header]\<rparr> = Inr spot \<and>
           contract_wallets_of a = Inr cws \<and>
           for_each (contract_step B) cws
             \<lparr>balances = Map.empty, total = 0, printed = printed spot @ [Contract_header]\<rparr>
             = Inr contract \<and>
           spot_balances r = balances spot \<and> spot_total r = total spot \<and>
           contract_balances r = balances contract \<and> contract_total r = total contract \<and>
           combined_liquid_assets r = total spot + total contract"
  using assms
  by (auto simp: aggregate_balances_def spot_wallets_of_def contract_wallets_of_def
        then_do_Inr_iff split: if_splits)

lemma digit_val_simps:
  "digit_val CHR ''0'' = Some 0" "digit_val CHR ''1'' = Some 1" "digit_val CHR ''5'' = Some 5"
  "digit_val CHR ''a'' = None"
  by (simp_all add: digit_val_def less_eq_char_def)

lemma rat_of_decimal_examples:
  "rat_of_decimal ''100.5'' = Some (201 / 2)"
  "rat_of_decimal ''0'' = Some 0"
  "rat_of_decimal ''10'' = Some 10"
  "rat_of_decimal ''abc'' = None"
  by (simp_all add: rat_of_decimal_def unsigned_rat_of_decimal_def nat_of_decimal_def
        digit_val_simps)

lemma example_spot_loop:
  "for_each (spot_step decimal_builtins)
     [JObj [(''tokenId'', JStr ''1''), (''balance'', JStr ''100.5''),
            (''pendingDepositAmount'', JStr ''0''), (''pendingWithdrawAmount'', JStr ''10'')]]
     \<lparr>balances = Map.empty, total = 0, printed = [Spot_header]\<rparr> =
   Inr \<lparr>balances = [JStr ''1'' \<mapsto> \<lparr>balance = 201 / 2, available = 181 / 2,
                                     pending_deposit = 0, pending_withdraw = 10\<rparr>],
        total = 181 / 2,
        printed = [Spot_header, Balance_line (JStr ''1'') (201 / 2) (181 / 2)]\<rparr>"
  by (simp add: spot_step_def read_wallet_def get_float_def then_do_Inr decimal_builtins_def
        rat_of_decimal_examples stablecoin_ids_def)

text \<open>
  C6: in a report that aggregation returns, every wallet record of \<open>spot_balances\<close>
  and of \<open>contract_balances\<close> has
  \<open>available = balance - pending_withdraw + pending_deposit\<close>.  For the spot wallet
  with \<open>tokenId\<close> \<open>"1"\<close>, balance \<open>"100.5"\<close>, pending deposit \<open>"0"\<close> and pending
  withdrawal \<open>"10"\<close>, the record has \<open>available = 90.5\<close> and \<open>spot_total\<close> is 90.5.
\<close>

theorem available_formula:
  "(aggregate_balances B ts a b = Inr (out, Report r) \<longrightarrow>
      (\<forall>k rec. spot_balances r k = Some rec \<longrightarrow>
         available rec = balance rec - pending_withdraw rec + pending_deposit rec) \<and>
      (\<forall>k rec. contract_balances r k = Some rec \<longrightarrow>
         available rec = balance rec - pending_withdraw rec + pending_deposit rec)) \<and>
   (aggregate_balances decimal_builtins ts example_spot_account b' = Inr (out', Report r') \<longrightarrow>
      spot_balances r' (JStr ''1'') =
        Some \<lparr>balance = 201 / 2, available = 181 / 2, pending_deposit = 0,
              pending_withdraw = 10\<rparr> \<and>
      spot_total r' = 181 / 2)"
proof (intro conjI impI)
  assume ok: "aggregate_balances B ts a b = Inr (out, Report r)"
  from aggregate_ReportD[OF ok] obtain sws spot cws contract where
    s: "for_each (spot_step B) sws
          \<lparr>balances = Map.empty, total = 0, printed = [Spot_header]\<rparr> = Inr spot"
    and c: "for_each (contract_step B) cws
          \<lparr>balances = Map.empty, total = 0, printed = printed spot @ [Contract_header]\<rparr>
          = Inr contract"
    and sb: "spot_balances r = balances spot" and cb: "contract_balances r = balances contract"
    by blast
  have "formula_holds (balances spot)"
    by (rule for_each_invariant[OF s, where P = "\<lambda>s. formula_holds (balances s)"])
       (simp_all add: formula_holds_empty spot_step_formula)
  then show "\<forall>k rec. spot_balances r k = Some rec \<longrightarrow>
         available rec = balance rec - pending_withdraw rec + pending_deposit rec"
    by (simp add: sb formula_holds_def)
  have "formula_holds (balances contract)"
    by (rule for_each_invariant[OF c, where P = "\<lambda>s. formula_holds (balances s)"])
       (simp_all add: formula_holds_empty contract_step_formula)
  then show "\<forall>k rec. contract_balances r k = Some rec \<longrightarrow>
         available rec = balance rec - pending_withdraw rec + pending_deposit rec"
    by (simp add: cb formula_holds_def)
next
  assume ok: "aggregate_balances decimal_builtins ts example_spot_account b' = Inr (out', Report r')"
  from aggregate_ReportD[OF ok] obtain sws spot where
    w: "spot_wallets_of example_spot_account = Inr sws"
    and s: "for_each (spot_step decimal_builtins) sws
          \<lparr>balances = Map.empty, total = 0, printed = [Spot_header]\<rparr> = Inr spot"
    and sb: "spot_balances r' = balances spot" and st: "spot_total r' = total spot"
    by blast
  from w have "sws = [JObj [(''tokenId'', JStr ''1''), (''balance'', JStr ''100.5''),
            (''pendingDepositAmount'', JStr ''0''), (''pendingWithdrawAmount'', JStr ''10'')]]"
    by (simp add: spot_wallets_of_def example_spot_account_def then_do_Inr)
  with s have sp: "spot = \<lparr>balances = [JStr ''1'' \<mapsto> \<lparr>balance = 201 / 2, available = 181 / 2,
                                     pending_deposit = 0, pending_withdraw = 10\<rparr>],
        total = 181 / 2,
        printed = [Spot_header, Balance_line (JStr ''1'') (201 / 2) (181 / 2)]\<rparr>"
    by (simp only: example_spot_loop sum.inject)
  show "spot_balances r' (JStr ''1'') =
        Some \<lparr>balance = 201 / 2, available = 181 / 2, pending_deposit = 0,
              pending_withdraw = 10\<rparr>"
    by (simp add: sb sp)
  show "spot_total r' = 181 / 2" by (simp add: st sp)
qed

text \<open>
  C8: when the account data or the balance data is empty or missing (false as Python
  tests it), aggregation prints the failure message and returns the empty dictionary,
  which the caller tests; nothing is raised.  So it is for the account data \<open>{}\<close>,
  and so it is for \<open>calculate_total_balance\<close> as a whole when a request has come back
  empty.
\<close>

theorem empty_input_empty_report:
  "(\<not> truthy a \<or> \<not> truthy b \<longrightarrow>
      aggregate_balances B ts a b = Inr ([Failed_to_fetch_account_data], Empty_dict)) \<and>
   aggregate_balances B ts (JObj []) b = Inr ([Failed_to_fetch_account_data], Empty_dict) \<and>
   (get_account_data B self w1 = Inr (out1, a) \<and> get_account_balance B self w2 = Inr (out2, b) \<and>
    (\<not> truthy a \<or> \<not> truthy b) \<longrightarrow>
      calculate_total_balance B self w1 w2 ts =
        Inr ([Fetching_account_data] @ out1 @ out2 @ [Failed_to_fetch_account_data], Empty_dict))"
  by (auto simp: aggregate_balances_def calculate_total_balance_def then_do_Inr)

lemma spot_step_Inr:
  assumes "spot_step B w s = Inr s'"
  shows "\<exists>tr. read_wallet B ''tokenId'' w = Inr tr \<and>
        balances s' = (balances s)(dict_key (fst tr) \<mapsto> snd tr) \<and>
        total s' = (if is_stablecoin tr then total s + available (snd tr) else total s)"
proof -
  from assms obtain t rec where rw: "read_wallet B ''tokenId'' w = Inr (t, rec)"
    and rest: "(if \<not> hashable t then Inl TypeError
                else Inr \<lparr>balances = (balances s)(dict_key t \<mapsto> rec),
                 total = (if t \<in> set stablecoin_ids then total s + available rec
                          else total s),
                 printed = printed s @ [Balance_line t (balance rec) (available rec)]\<rparr>) = Inr s'"
    by (auto simp: spot_step_def then_do_Inr_iff)
  from rest have s': "s' = \<lparr>balances = (balances s)(dict_key t \<mapsto> rec),
                 total = (if t \<in> set stablecoin_ids then total s + available rec
                          else total s),
                 printed = printed s @ [Balance_line t (balance rec) (available rec)]\<rparr>"
    by (cases "hashable t") simp_all
  show ?thesis
    by (rule exI[of _ "(t, rec)"]) (simp add: rw s' is_stablecoin_def)
qed

lemma map_upd_as_add: "m(k \<mapsto> v) = m ++ [k \<mapsto> v]"
  by simp

lemma spot_loop_result:
  "for_each (spot_step B) ws s = Inr s' \<Longrightarrow>
   \<exists>recs. map (read_wallet B ''tokenId'') ws = map Inr recs \<and>
          balances s' = balances s ++ map_of (rev (map keyed recs)) \<and>
          total s' = foldl (+) (total s) (map (\<lambda>tr. available (snd tr)) (filter is_stablecoin recs))"
proof (induction ws arbitrary: s)
  case Nil
  then show ?case by simp
next
  case (Cons w ws)
  from Cons.prems obtain s1 where b: "spot_step B w s = Inr s1"
    and r: "for_each (spot_step B) ws s1 = Inr s'"
    by (auto simp: then_do_Inr_iff)
  from spot_step_Inr[OF b] obtain tr where
    rw: "read_wallet B ''tokenId'' w = Inr tr"
    and b1: "balances s1 = (balances s)(dict_key (fst tr) \<mapsto> snd tr)"
    and t1: "total s1 = (if is_stablecoin tr then total s + available (snd tr) else total s)"
    by blast
  from Cons.IH[OF r] obtain recs where
    m: "map (read_wallet B ''tokenId'') ws = map Inr recs"
    and bs: "balances s' = balances s1 ++ map_of (rev (map keyed recs))"
    and ts: "total s' = foldl (+) (total s1) (map (\<lambda>tr. available (snd tr)) (filter is_stablecoin recs))"
    by blast
  have "map (read_wallet B ''tokenId'') (w # ws) = map Inr (tr # recs)"
    using rw m by simp
  moreover have "balances s' = balances s ++ map_of (rev (map keyed (tr # recs)))"
  proof -
    have "balances s1 = balances s ++ [dict_key (fst tr) \<mapsto> snd tr]"
      unfolding b1 by (rule map_upd_as_add)
    then have "balances s' = balances s ++ ([dict_key (fst tr) \<mapsto> snd tr] ++ map_of (rev (map keyed recs)))"
      unfolding bs by (simp only: map_add_assoc)
    also have "[dict_key (fst tr) \<mapsto> snd tr] ++ map_of (rev (map keyed recs))
               = map_of (rev (map keyed recs) @ [keyed tr])"
      by (simp only: map_of_append keyed_def map_of.simps map_add_empty fst_conv snd_conv)
    finally show ?thesis by simp
  qed
  moreover have "total s' = foldl (+) (total s)
      (map (\<lambda>tr. available (snd tr)) (filter is_stablecoin (tr # recs)))"
    unfolding ts t1 by simp
  ultimately show ?case by blast
qed

lemma map_of_rev_dom:
  "tr \<in> set recs \<Longrightarrow> \<exists>rec. map_of (rev (map keyed recs)) (dict_key (fst tr)) = Some rec"
proof -
  assume "tr \<in> set recs"
  then have "keyed tr \<in> set (rev (map keyed recs))" by simp
  then have "fst (keyed tr) \<in> fst ` set (rev (map keyed recs))" by (rule imageI)
  then have "dict_key (fst tr) \<in> dom (map_of (rev (map keyed recs)))"
    by (simp only: dom_map_of_conv_image_fst keyed_def fst_conv)
  then show ?thesis by (rule domD)
qed

lemma map_of_rev_distinct:
  assumes "distinct (map (\<lambda>tr. dict_key (fst tr)) recs)" and "tr \<in> set recs"
  shows "map_of (rev (map keyed recs)) (dict_key (fst tr)) = Some (snd tr)"
proof -
  have "map fst (rev (map keyed recs)) = rev (map (\<lambda>tr. dict_key (fst tr)) recs)"
    by (simp add: rev_map keyed_def comp_def)
  with assms(1) have "distinct (map fst (rev (map keyed recs)))"
    by (simp only: distinct_rev)
  moreover have "(dict_key (fst tr), snd tr) \<in> set (rev (map keyed recs))"
    using assms(2) by (force simp: keyed_def)
  ultimately show ?thesis by (rule map_of_is_SomeI)
qed

text \<open>
  C7: when aggregation returns a report, every spot wallet was read into a record, and
  \<open>spot_total\<close> is the sum, from 0 and in the order of the wallets, of the
  \<open>available\<close> values of exactly those records whose identifier is \<open>"1"\<close>,
  \<open>"17"\<close> or \<open>"140"\<close>: a wallet with another identifier adds nothing.  Every wallet's
  identifier, in the list or not, is a key of \<open>spot_balances\<close>, and when no two
  wallets share an identifier the record under it is the wallet's own.
\<close>

theorem spot_total_allow_list:
  "aggregate_balances B ts a b = Inr (out, Report r) \<longrightarrow>
     (\<exists>sws recs.
        spot_wallets_of a = Inr sws \<and>
        map (read_wallet B ''tokenId'') sws = map Inr recs \<and>
        spot_total r =
          foldl (+) 0 (map (\<lambda>tr. available (snd tr))
                         (filter (\<lambda>tr. fst tr \<in> set [JStr ''1'', JStr ''17'', JStr ''140'']) recs)) \<and>
        (\<forall>tr\<in>set recs. \<exists>rec. spot_balances r (dict_key (fst tr)) = Some rec) \<and>
        (distinct (map (\<lambda>tr. dict_key (fst tr)) recs) \<longrightarrow>
           (\<forall>tr\<in>set recs. spot_balances r (dict_key (fst tr)) = Some (snd tr))))"
proof
  assume ok: "aggregate_balances B ts a b = Inr (out, Report r)"
  from aggregate_ReportD[OF ok] obtain sws spot where
    w: "spot_wallets_of a = Inr sws"
    and s: "for_each (spot_step B) sws
          \<lparr>balances = Map.empty, total = 0, printed = [Spot_header]\<rparr> = Inr spot"
    and sb: "spot_balances r = balances spot" and st: "spot_total r = total spot"
    by blast
  from spot_loop_result[OF s] obtain recs where
    m: "map (read_wallet B ''tokenId'') sws = map Inr recs"
    and bs: "balances spot = map_of (rev (map keyed recs))"
    and ts: "total spot = foldl (+) 0 (map (\<lambda>tr. available (snd tr)) (filter is_stablecoin recs))"
    by auto
  have f: "filter is_stablecoin recs =
           filter (\<lambda>tr. fst tr \<in> set [JStr ''1'', JStr ''17'', JStr ''140'']) recs"
    by (simp add: is_stablecoin_def[abs_def] stablecoin_ids_def)
  have p: "\<forall>tr\<in>set recs. \<exists>rec. spot_balances r (dict_key (fst tr)) = Some rec"
    unfolding sb bs by (intro ballI map_of_rev_dom)
  have d: "distinct (map (\<lambda>tr. dict_key (fst tr)) recs) \<longrightarrow>
           (\<forall>tr\<in>set recs. spot_balances r (dict_key (fst tr)) = Some (snd tr))"
    unfolding sb bs by (intro impI ballI map_of_rev_distinct)
  show "\<exists>sws recs.
        spot_wallets_of a = Inr sws \<and>
        map (read_wallet B ''tokenId'') sws = map Inr recs \<and>
        spot_total r =
          foldl (+) 0 (map (\<lambda>tr. available (snd tr))
                         (filter (\<lambda>tr. fst tr \<in> set [JStr ''1'', JStr ''17'', JStr ''140'']) recs)) \<and>
        (\<forall>tr\<in>set recs. \<exists>rec. spot_balances r (dict_key (fst tr)) = Some rec) \<and>
        (distinct (map (\<lambda>tr. dict_key (fst tr)) recs) \<longrightarrow>
           (\<forall>tr\<in>set recs. spot_balances r (dict_key (fst tr)) = Some (snd tr)))"
    using w m p d unfolding st ts f by blast
qed

lemma map_of_fill_field:
  "map_of (fill_field k kvs) k' =
     (if k' = k \<and> map_of kvs k = None then Some (JNum 0) else map_of kvs k')"
  by (auto simp: fill_field_def map_add_def split: option.splits)

lemma get_float_fill_field:
  "get_float B (JObj (fill_field k kvs)) k' = get_float B (JObj kvs) k'"
  by (auto simp: get_float_def map_of_fill_field then_do_Inr)

lemma read_wallet_fill:
  "id_key \<notin> set amount_fields \<Longrightarrow>
   read_wallet B id_key (fill_wallet w) = read_wallet B id_key w"
  by (cases w)
     (simp_all add: fill_wallet_def read_wallet_def get_float_fill_field map_of_fill_field
        amount_fields_def)

lemma spot_step_fill: "spot_step B (fill_wallet w) s = spot_step B w s"
  by (simp add: spot_step_def read_wallet_fill amount_fields_def)

lemma contract_step_fill: "contract_step B (fill_wallet w) s = contract_step B w s"
  by (simp add: contract_step_def read_wallet_fill amount_fields_def)

lemma for_each_map:
  "(\<And>x s. body (f x) s = body x s) \<Longrightarrow> for_each body (map f xs) s = for_each body xs s"
proof (induction xs arbitrary: s)
  case Nil
  then show ?case by simp
next
  case (Cons x xs)
  have "for_each body (map f xs) = for_each body xs"
    by (rule ext) (rule Cons.IH, rule Cons.prems)
  then show ?case by (simp add: Cons.prems)
qed

lemma for_each_spot_fill:
  "for_each (spot_step B) (map fill_wallet ws) s = for_each (spot_step B) ws s"
  by (rule for_each_map) (rule spot_step_fill)

lemma for_each_contract_fill:
  "for_each (contract_step B) (map fill_wallet ws) s = for_each (contract_step B) ws s"
  by (rule for_each_map) (rule contract_step_fill)

lemma py_iter_fill:
  "py_iter (fill_wallets v) =
     (case py_iter v of Inl e \<Rightarrow> Inl e | Inr ws \<Rightarrow> Inr (map fill_wallet ws))"
  by (cases v) (simp_all add: fill_wallets_def fill_wallet_def comp_def)

lemma then_do_iter_fill:
  "then_do (py_iter (fill_wallets v)) F = then_do (py_iter v) (\<lambda>ws. F (map fill_wallet ws))"
  by (simp add: py_iter_fill then_do_def split: sum.splits)

lemma map_of_fill_account:
  "map_of (map (\<lambda>kv. if fst kv = ''spotWallets'' \<or> fst kv = ''contractWallets''
                      then (fst kv, fill_wallets (snd kv)) else kv) akvs) k =
     (if k = ''spotWallets'' \<or> k = ''contractWallets''
      then map_option fill_wallets (map_of akvs k) else map_of akvs k)"
  by (induction akvs) auto

lemma fill_wallets_empty: "fill_wallets (JArr []) = JArr []"
  by (simp add: fill_wallets_def)

lemma py_get_fill_spot:
  "py_get (fill_account (JObj akvs)) ''spotWallets'' (JArr []) =
     Inr (fill_wallets (case map_of akvs ''spotWallets'' of None \<Rightarrow> JArr [] | Some v \<Rightarrow> v))"
  by (simp add: fill_account_def map_of_fill_account fill_wallets_empty split: option.splits)

lemma py_get_fill_contract:
  "py_get (fill_account (JObj akvs)) ''contractWallets'' (JArr []) =
     Inr (fill_wallets (case map_of akvs ''contractWallets'' of None \<Rightarrow> JArr [] | Some v \<Rightarrow> v))"
  by (simp add: fill_account_def map_of_fill_account fill_wallets_empty split: option.splits)

lemma py_get_fill_positions:
  "py_get (fill_account (JObj akvs)) ''positions'' d = py_get (JObj akvs) ''positions'' d"
  by (simp add: fill_account_def map_of_fill_account)

lemma truthy_fill_account: "truthy (fill_account a) = truthy a"
  by (cases a) (simp_all add: fill_account_def)

lemma aggregate_fill:
  "aggregate_balances B ts (fill_account a) b = aggregate_balances B ts a b"
proof (cases a)
  case (JObj akvs)
  show ?thesis
    unfolding aggregate_balances_def truthy_fill_account
    unfolding JObj py_get_fill_spot py_get_fill_contract py_get_fill_positions
    by (simp add: then_do_Inr then_do_iter_fill for_each_spot_fill for_each_contract_fill)
qed (simp_all add: fill_account_def)

lemma for_each_invariant_mem:
  "for_each body xs s = Inr s' \<Longrightarrow> P s \<Longrightarrow>
   (\<forall>x\<in>set xs. \<forall>s s'. P s \<longrightarrow> body x s = Inr s' \<longrightarrow> P s') \<Longrightarrow> P s'"
proof (induction xs arbitrary: s)
  case Nil
  then show ?case by simp
next
  case (Cons x xs)
  from Cons.prems(1) obtain s1 where b: "body x s = Inr s1" and r: "for_each body xs s1 = Inr s'"
    by (auto simp: then_do_Inr_iff)
  have "x \<in> set (x # xs)" by simp
  with Cons.prems(3) have "\<forall>s s'. P s \<longrightarrow> body x s = Inr s' \<longrightarrow> P s'" by (rule bspec)
  with Cons.prems(2) b have 1: "P s1" by blast
  have 2: "\<forall>x\<in>set xs. \<forall>s s'. P s \<longrightarrow> body x s = Inr s' \<longrightarrow> P s'"
  proof
    fix y
    assume "y \<in> set xs"
    then have "y \<in> set (x # xs)" by simp
    with Cons.prems(3) show "\<forall>s s'. P s \<longrightarrow> body y s = Inr s' \<longrightarrow> P s'" by (rule bspec)
  qed
  from r 1 2 show ?case by (rule Cons.IH)
qed

lemma read_wallet_zero:
  "read_wallet B id_key w = Inr (t, rec) \<Longrightarrow> \<exists>kvs. w = JObj kvs \<and> zero_where_missing kvs rec"
  by (cases w)
     (auto simp: read_wallet_def then_do_Inr_iff then_do_Inl get_float_def
        zero_where_missing_def)

lemma contract_step_Inr:
  assumes "contract_step B w s = Inr s'"
  shows "\<exists>tr. read_wallet B ''asset'' w = Inr tr \<and>
        balances s' = (balances s)(dict_key (fst tr) \<mapsto> snd tr)"
proof -
  from assms obtain t rec where rw: "read_wallet B ''asset'' w = Inr (t, rec)"
    and rest: "(if \<not> hashable t then Inl TypeError
                else Inr \<lparr>balances = (balances s)(dict_key t \<mapsto> rec),
                 total = total s + available rec,
                 printed = printed s @ [Balance_line t (balance rec) (available rec)]\<rparr>) = Inr s'"
    by (auto simp: contract_step_def then_do_Inr_iff)
  from rest have s': "s' = \<lparr>balances = (balances s)(dict_key t \<mapsto> rec),
                 total = total s + available rec,
                 printed = printed s @ [Balance_line t (balance rec) (available rec)]\<rparr>"
    by (cases "hashable t") simp_all
  show ?thesis
    by (rule exI[of _ "(t, rec)"]) (simp add: rw s')
qed

lemma records_read_from_upd:
  assumes m: "records_read_from B id_key ws m"
    and w: "w \<in> set ws" and rw: "read_wallet B id_key w = Inr tr"
  shows "records_read_from B id_key ws (m(dict_key (fst tr) \<mapsto> snd tr))"
proof -
  from rw have rw': "read_wallet B id_key w = Inr (fst tr, snd tr)" by simp
  from read_wallet_zero[OF rw'] obtain kvs where
    k: "w = JObj kvs" and z: "zero_where_missing kvs (snd tr)" by blast
  show ?thesis
    unfolding records_read_from_def
  proof (intro allI impI)
    fix k rec
    assume a: "(m(dict_key (fst tr) \<mapsto> snd tr)) k = Some rec"
    show "\<exists>kvs t. JObj kvs \<in> set ws \<and> read_wallet B id_key (JObj kvs) = Inr (t, rec) \<and>
                  dict_key t = k \<and> zero_where_missing kvs rec"
    proof (cases "k = dict_key (fst tr)")
      case True
      with a have "rec = snd tr" by simp
      with w rw' k z True show ?thesis by blast
    next
      case False
      with a have "m k = Some rec" by simp
      with m show ?thesis unfolding records_read_from_def by blast
    qed
  qed
qed

lemma records_read_from_empty: "records_read_from B id_key ws Map.empty"
  by (simp add: records_read_from_def)

lemma spot_loop_read_from:
  assumes "for_each (spot_step B) ws s = Inr s'"
    and "records_read_from B ''tokenId'' ws (balances s)"
  shows "records_read_from B ''tokenId'' ws (balances s')"
proof (rule for_each_invariant_mem[where P = "\<lambda>s. records_read_from B ''tokenId'' ws (balances s)",
        OF assms], intro ballI allI impI)
  fix x s1 s2
  assume x: "x \<in> set ws" and p: "records_read_from B ''tokenId'' ws (balances s1)"
    and b: "spot_step B x s1 = Inr s2"
  from spot_step_Inr[OF b] obtain tr where
    rw: "read_wallet B ''tokenId'' x = Inr tr"
    and b2: "balances s2 = (balances s1)(dict_key (fst tr) \<mapsto> snd tr)" by blast
  show "records_read_from B ''tokenId'' ws (balances s2)"
    unfolding b2 using p x rw by (rule records_read_from_upd)
qed

lemma contract_loop_read_from:
  assumes "for_each (contract_step B) ws s = Inr s'"
    and "records_read_from B ''asset'' ws (balances s)"
  shows "records_read_from B ''asset'' ws (balances s')"
proof (rule for_each_invariant_mem[where P = "\<lambda>s. records_read_from B ''asset'' ws (balances s)",
        OF assms], intro ballI allI impI)
  fix x s1 s2
  assume x: "x \<in> set ws" and p: "records_read_from B ''asset'' ws (balances s1)"
    and b: "contract_step B x s1 = Inr s2"
  from contract_step_Inr[OF b] obtain tr where
    rw: "read_wallet B ''asset'' x = Inr tr"
    and b2: "balances s2 = (balances s1)(dict_key (fst tr) \<mapsto> snd tr)" by blast
  show "records_read_from B ''asset'' ws (balances s2)"
    unfolding b2 using p x rw by (rule records_read_from_upd)
qed

lemma aggregate_read_from:
  assumes "aggregate_balances B ts a b = Inr (out, Report r)"
  shows "\<exists>sws cws. spot_wallets_of a = Inr sws \<and> contract_wallets_of a = Inr cws \<and>
           records_read_from B ''tokenId'' sws (spot_balances r) \<and>
           records_read_from B ''asset'' cws (contract_balances r)"
proof -
  from aggregate_ReportD[OF assms] obtain sws spot cws contract where
    w: "spot_wallets_of a = Inr sws"
    and s: "for_each (spot_step B) sws
          \<lparr>balances = Map.empty, total = 0, printed = [Spot_header]\<rparr> = Inr spot"
    and cw: "contract_wallets_of a = Inr cws"
    and c: "for_each (contract_step B) cws
             \<lparr>balances = Map.empty, total = 0, printed = printed spot @ [Contract_header]\<rparr>
             = Inr contract"
    and sb: "spot_balances r = balances spot" and cb: "contract_balances r = balances contract"
    by blast
  have 1: "records_read_from B ''tokenId'' sws (balances spot)"
    by (rule spot_loop_read_from[OF s]) (simp add: records_read_from_empty)
  have 2: "records_read_from B ''asset'' cws (balances contract)"
    by (rule contract_loop_read_from[OF c]) (simp add: records_read_from_empty)
  from w cw 1 2 show ?thesis unfolding sb cb by blast
qed

lemma for_each_raises:
  "x \<in> set xs \<Longrightarrow> (\<And>s. \<exists>e. body x s = Inl e) \<Longrightarrow> \<exists>e. for_each body xs s = Inl e"
proof (induction xs arbitrary: s)
  case Nil
  then show ?case by simp
next
  case (Cons y ys)
  show ?case
  proof (cases "body y s")
    case (Inl e)
    then show ?thesis by (simp add: then_do_Inl)
  next
    case (Inr s1)
    with Cons.prems(2)[of s] have "x \<noteq> y" by auto
    with Cons.prems(1) have "x \<in> set ys" by simp
    from Cons.IH[OF this Cons.prems(2), of s1] Inr show ?thesis by (simp add: then_do_Inr)
  qed
qed

lemma get_float_rejected:
  "map_of kvs k = Some v \<Longrightarrow> py_float B v = Inl e \<Longrightarrow> get_float B (JObj kvs) k = Inl e"
  by (simp add: get_float_def then_do_Inr)

lemma read_wallet_raises:
  assumes "k \<in> set amount_fields" and "map_of kvs k = Some v" and "py_float B v = Inl e"
  shows "\<exists>e'. read_wallet B id_key (JObj kvs) = Inl e'"
proof -
  from assms(2,3) have g: "get_float B (JObj kvs) k = Inl e" by (rule get_float_rejected)
  from assms(1) consider "k = ''balance''" | "k = ''pendingDepositAmount''"
    | "k = ''pendingWithdrawAmount''"
    by (auto simp: amount_fields_def)
  then show ?thesis
  proof cases
    case 1
    with g show ?thesis by (simp add: read_wallet_def then_do_Inr then_do_Inl)
  next
    case 2
    with g show ?thesis
      by (cases "get_float B (JObj kvs) ''balance''")
         (simp_all add: read_wallet_def then_do_Inr then_do_Inl)
  next
    case 3
    with g show ?thesis
      by (cases "get_float B (JObj kvs) ''balance''";
          cases "get_float B (JObj kvs) ''pendingDepositAmount''")
         (simp_all add: read_wallet_def then_do_Inr then_do_Inl)
  qed
qed

lemma spot_loop_raises:
  assumes "JObj kvs \<in> set ws" and "k \<in> set amount_fields" and "map_of kvs k = Some v"
    and "py_float B v = Inl e"
  shows "\<exists>e'. for_each (spot_step B) ws s = Inl e'"
proof (rule for_each_raises[OF assms(1)])
  fix s1
  from read_wallet_raises[OF assms(2,3,4)] obtain e' where
    "read_wallet B ''tokenId'' (JObj kvs) = Inl e'" by blast
  then show "\<exists>e. spot_step B (JObj kvs) s1 = Inl e" by (simp add: spot_step_def then_do_Inl)
qed

lemma contract_loop_raises:
  assumes "JObj kvs \<in> set ws" and "k \<in> set amount_fields" and "map_of kvs k = Some v"
    and "py_float B v = Inl e"
  shows "\<exists>e'. for_each (contract_step B) ws s = Inl e'"
proof (rule for_each_raises[OF assms(1)])
  fix s1
  from read_wallet_raises[OF assms(2,3,4)] obtain e' where
    "read_wallet B ''asset'' (JObj kvs) = Inl e'" by blast
  then show "\<exists>e. contract_step B (JObj kvs) s1 = Inl e" by (simp add: contract_step_def then_do_Inl)
qed

lemma aggregate_raises:
  assumes t: "truthy a" "truthy b"
    and ws: "spot_wallets_of a = Inr ws \<or> contract_wallets_of a = Inr ws"
    and w: "JObj kvs \<in> set ws" and k: "k \<in> set amount_fields"
    and v: "map_of kvs k = Some v" and e: "py_float B v = Inl e"
  shows "\<exists>e'. aggregate_balances B ts a b = Inl e'"
proof -
  from ws show ?thesis
  proof
    assume "spot_wallets_of a = Inr ws"
    then obtain v1 where 1: "py_get a ''spotWallets'' (JArr []) = Inr v1"
      and 2: "py_iter v1 = Inr ws"
      by (auto simp: spot_wallets_of_def then_do_Inr_iff)
    from spot_loop_raises[OF w k v e] obtain e' where
      "for_each (spot_step B) ws \<lparr>balances = Map.empty, total = 0, printed = [Spot_header]\<rparr>
         = Inl e'" by blast
    then show ?thesis
      unfolding aggregate_balances_def using t by (simp add: 1 2 then_do_Inr then_do_Inl)
  next
    assume "contract_wallets_of a = Inr ws"
    then obtain v2 where 1: "py_get a ''contractWallets'' (JArr []) = Inr v2"
      and 2: "py_iter v2 = Inr ws"
      by (auto simp: contract_wallets_of_def then_do_Inr_iff)
    have 3: "\<exists>e'. for_each (contract_step B) ws s = Inl e'" for s
      by (rule contract_loop_raises[OF w k v e])
    show ?thesis
    proof (cases "py_get a ''spotWallets'' (JArr [])")
      case (Inl x)
      then show ?thesis
        unfolding aggregate_balances_def using t by (simp add: then_do_Inl)
    next
      case v1: (Inr v1)
      show ?thesis
      proof (cases "py_iter v1")
        case (Inl x)
        then show ?thesis
          unfolding aggregate_balances_def using t by (simp add: v1 then_do_Inr then_do_Inl)
      next
        case sws: (Inr sws)
        show ?thesis
        proof (cases "for_each (spot_step B) sws
                 \<lparr>balances = Map.empty, total = 0, printed = [Spot_header]\<rparr>")
          case (Inl x)
          then show ?thesis
            unfolding aggregate_balances_def using t
            by (simp add: v1 sws then_do_Inr then_do_Inl)
        next
          case spot: (Inr spot)
          from 3 obtain e' where
            "for_each (contract_step B) ws
               \<lparr>balances = Map.empty, total = 0, printed = printed spot @ [Contract_header]\<rparr>
             = Inl e'" by blast
          then show ?thesis
            unfolding aggregate_balances_def using t
            by (simp add: v1 sws spot 1 2 then_do_Inr then_do_Inl)
        qed
      qed
    qed
  qed
qed

text \<open>
  C4, amended: a \<open>balance\<close>, \<open>pendingDepositAmount\<close> or \<open>pendingWithdrawAmount\<close>
  field that a wallet lacks is read as 0.  Aggregation does the same (the same printed
  lines and report, or the same exception) as on the account response in which every
  wallet of \<open>spotWallets\<close> and \<open>contractWallets\<close> has the fields it lacks filled in
  with the number 0; and in a report that aggregation returns, every record of
  \<open>spot_balances\<close> and \<open>contract_balances\<close> was read from a wallet of the list and
  has 0 for each of the three fields which that wallet lacks.  A field that is present
  with a value \<open>float\<close> rejects is not read as 0: when both responses are non-empty
  and a wallet of the \<open>spotWallets\<close> or of the \<open>contractWallets\<close> list has such a
  field, aggregation raises, and the exception leaves \<open>calculate_total_balance\<close>
  when the two requests returned these responses.
\<close>

theorem missing_field_defaults_to_zero:
  "aggregate_balances B ts (fill_account a) b = aggregate_balances B ts a b \<and>
   (aggregate_balances B ts a b = Inr (out, Report r) \<longrightarrow>
      (\<exists>sws cws. spot_wallets_of a = Inr sws \<and> contract_wallets_of a = Inr cws \<and>
         records_read_from B ''tokenId'' sws (spot_balances r) \<and>
         records_read_from B ''asset'' cws (contract_balances r))) \<and>
   (truthy a \<and> truthy b \<and>
    (spot_wallets_of a = Inr ws \<or> contract_wallets_of a = Inr ws) \<and> JObj kvs \<in> set ws \<and>
    k \<in> set amount_fields \<and> map_of kvs k = Some v \<and> py_float B v = Inl e \<longrightarrow>
      (\<exists>e'. aggregate_balances B ts a b = Inl e') \<and>
      (get_account_data B self w1 = Inr (out1, a) \<and>
       get_account_balance B self w2 = Inr (out2, b) \<longrightarrow>
         (\<exists>e'. calculate_total_balance B self w1 w2 ts = Inl e')))"
proof (intro conjI impI)
  show "aggregate_balances B ts (fill_account a) b = aggregate_balances B ts a b"
    by (rule aggregate_fill)
next
  assume "aggregate_balances B ts a b = Inr (out, Report r)"
  then show "\<exists>sws cws. spot_wallets_of a = Inr sws \<and> contract_wallets_of a = Inr cws \<and>
         records_read_from B ''tokenId'' sws (spot_balances r) \<and>
         records_read_from B ''asset'' cws (contract_balances r)"
    by (rule aggregate_read_from)
next
  assume h: "truthy a \<and> truthy b \<and>
    (spot_wallets_of a = Inr ws \<or> contract_wallets_of a = Inr ws) \<and> JObj kvs \<in> set ws \<and>
    k \<in> set amount_fields \<and> map_of kvs k = Some v \<and> py_float B v = Inl e"
  then show r: "\<exists>e'. aggregate_balances B ts a b = Inl e'"
    by (intro aggregate_raises[where ws = ws and kvs = kvs and k = k and v = v and e = e]) simp_all
  assume "get_account_data B self w1 = Inr (out1, a) \<and>
       get_account_balance B self w2 = Inr (out2, b)"
  with r show "\<exists>e'. calculate_total_balance B self w1 w2 ts = Inl e'"
    by (auto simp: calculate_total_balance_def then_do_Inr then_do_Inl)
qed

section \<open>Examples\<close>

lemma example_canonical: "canonical_query example_params = ''Limit=True&limit=20&symbol=BTC-USDT''"
  by (simp add: canonical_query_def query_params_of_def sorted_items_def example_params_def
        less_eq_char_def less_char_def digit_char_def str_of_int_def)

lemma example_canonical_reordered:
  "canonical_query example_params_reordered = ''Limit=True&limit=20&symbol=BTC-USDT''"
  by (simp add: canonical_query_def query_params_of_def sorted_items_def
        example_params_reordered_def less_eq_char_def less_char_def digit_char_def str_of_int_def)

lemma example_timestamp: "str_of_int 1700000000000 = ''1700000000000''"
  by (simp add: str_of_int_def digit_char_def)

text \<open>
  C2 on an example: four parameters, one of them \<open>None\<close>, in two insertion orders; an
  upper-case letter sorts before the lower-case ones.
\<close>

theorem canonical_query_sorted_independent_witness:
  "distinct (map fst example_params) \<and> distinct (map fst example_params_reordered) \<and>
   map_of example_params = map_of example_params_reordered \<and>
   canonical_query example_params_reordered = canonical_query example_params \<and>
   canonical_query example_params = ''Limit=True&limit=20&symbol=BTC-USDT''"
proof -
  have d: "distinct (map fst example_params)" "distinct (map fst example_params_reordered)"
    by (simp_all add: example_params_def example_params_reordered_def)
  have m: "map_of example_params = map_of example_params_reordered"
    by (rule ext) (simp add: example_params_def example_params_reordered_def)
  from canonical_query_sorted_independent[of example_params example_params_reordered] d m
  have "canonical_query example_params_reordered = canonical_query example_params" by blast
  with d m example_canonical show ?thesis by simp
qed

text \<open>
  C3 on an example.
\<close>

theorem get_signed_message_repeats_query_witness:
  "canonical_query example_params \<noteq> [] \<and>
   signed_message 1700000000000 ''GET'' ''/orders'' (Some example_params) =
     ''1700000000000GET/v3/orders?Limit=True&limit=20&symbol=BTC-USDT&Limit=True&limit=20&symbol=BTC-USDT'' \<and>
   url (build_request example_credentials 1700000000000 ''GET'' ''/orders'' (Some example_params) 30) =
     ''https://omni.apex.exchange/api/v3/orders?Limit=True&limit=20&symbol=BTC-USDT''"
proof -
  have ne: "canonical_query example_params \<noteq> []" by (simp add: example_canonical)
  from get_signed_message_repeats_query[of example_params 1700000000000 "''/orders''"
      example_credentials 30] ne
  show ?thesis
    by (simp add: example_canonical example_timestamp example_credentials_def init_checker_def)
qed

text \<open>
  C10 on an example: the same signed message with parameters and without.
\<close>

theorem post_signature_ignores_body_witness:
  "''POST'' \<noteq> ''GET'' \<and>
   signed_message 1700000000000 ''POST'' ''/order'' (Some example_params) =
     ''1700000000000POST/v3/order'' \<and>
   signed_message 1700000000000 ''POST'' ''/order'' None = ''1700000000000POST/v3/order'' \<and>
   json_body (build_request example_credentials 1700000000000 ''POST'' ''/order''
                (Some example_params) 30) = Some example_params"
  using post_signature_ignores_body[of "''POST''" 1700000000000 "''/order''" "Some example_params"
          example_credentials 30]
        post_signature_ignores_body[of "''POST''" 1700000000000 "''/order''" None
          example_credentials 30]
  by (simp add: example_timestamp)

text \<open>
  C5 as stated fails for a status outside 2xx that \<open>raise_for_status\<close> lets through:
  a response with status 300 and a JSON body is returned as it is, and nothing is
  printed.
\<close>

theorem non_2xx_status_counterexample:
  "make_request decimal_builtins example_credentials
     (example_world (Inr \<lparr>status_code = 300,
                          json_result = Inr (JObj [(''code'', JStr ''multiple'')])\<rparr>))
     ''GET'' ''/account'' None
   = Inr ([], JObj [(''code'', JStr ''multiple'')])"
  by (simp add: make_request_def try_block_def read_timeout_def example_world_def
        raise_for_status_def then_do_def)

text \<open>
  C5, amended, on examples: a timeout, a connection error, and a response with status 503.
\<close>

theorem make_request_transport_failure_witness:
  "make_request decimal_builtins example_credentials (example_world (Inl Timeout))
     ''GET'' ''/account'' None = Inr ([Api_request_failed Timeout], JObj []) \<and>
   make_request decimal_builtins example_credentials (example_world (Inl ConnectionError))
     ''GET'' ''/account'' None = Inr ([Api_request_failed ConnectionError], JObj []) \<and>
   make_request decimal_builtins example_credentials
     (example_world (Inr \<lparr>status_code = 503, json_result = Inl JSONDecodeError\<rparr>))
     ''GET'' ''/account'' None = Inr ([Api_request_failed HTTPError], JObj [])"
proof -
  have t: "read_timeout decimal_builtins (request_timeout (example_world x)) = Inr 30" for x
    by (simp add: read_timeout_def example_world_def)
  show ?thesis
    using make_request_transport_failure[of decimal_builtins "example_world (Inl Timeout)" 30
            example_credentials "''GET''" "''/account''" None Timeout]
          make_request_transport_failure[of decimal_builtins "example_world (Inl ConnectionError)" 30
            example_credentials "''GET''" "''/account''" None ConnectionError]
          make_request_transport_failure[of decimal_builtins
            "example_world (Inr \<lparr>status_code = 503, json_result = Inl JSONDecodeError\<rparr>)" 30
            example_credentials "''GET''" "''/account''" None _
            "\<lparr>status_code = 503, json_result = Inl JSONDecodeError\<rparr>"]
    by (simp add: t) (simp add: example_world_def)
qed

lemma digit_val_digits:
  "digit_val CHR ''0'' = Some 0" "digit_val CHR ''1'' = Some 1" "digit_val CHR ''2'' = Some 2"
  "digit_val CHR ''3'' = Some 3" "digit_val CHR ''4'' = Some 4" "digit_val CHR ''5'' = Some 5"
  "digit_val CHR ''6'' = Some 6" "digit_val CHR ''7'' = Some 7" "digit_val CHR ''8'' = Some 8"
  "digit_val CHR ''9'' = Some 9"
  by (simp_all add: digit_val_def less_eq_char_def)

lemmas decimal_eval =
  decimal_builtins_def rat_of_decimal_def unsigned_rat_of_decimal_def nat_of_decimal_def
  digit_val_digits

lemmas aggregate_eval =
  aggregate_balances_def spot_step_def contract_step_def position_step_def read_wallet_def
  get_float_def then_do_Inr then_do_Inl stablecoin_ids_def

lemma example_spot_report:
  "aggregate_balances decimal_builtins ''2025-01-01T00:00:00'' example_spot_account example_balance =
     Inr ([Spot_header, Balance_line (JStr ''1'') (201 / 2) (181 / 2), Contract_header,
           Positions_header],
          Report \<lparr>timestamp = ''2025-01-01T00:00:00'',
                  spot_balances = [JStr ''1'' \<mapsto> \<lparr>balance = 201 / 2, available = 181 / 2,
                                     pending_deposit = 0, pending_withdraw = 10\<rparr>],
                  contract_balances = Map.empty,
                  total_equity = 1001 / 4, available_balance = 0, positions_summary = [],
                  initial_margin = Some 0, maintenance_margin = Some 0,
                  spot_total = 181 / 2, contract_total = 0,
                  combined_liquid_assets = 181 / 2\<rparr>)"
  by (simp add: aggregate_eval decimal_eval example_spot_account_def example_balance_def)

lemma example_two_wallets_report:
  "aggregate_balances decimal_builtins ''2025-01-01T00:00:00'' example_two_wallets example_balance =
     Inr ([Spot_header, Balance_line (JStr ''1'') (201 / 2) (181 / 2),
           Balance_line (JStr ''36'') 5 5, Contract_header, Positions_header],
          Report \<lparr>timestamp = ''2025-01-01T00:00:00'',
                  spot_balances = [JStr ''1'' \<mapsto> \<lparr>balance = 201 / 2, available = 181 / 2,
                                     pending_deposit = 0, pending_withdraw = 10\<rparr>,
                                   JStr ''36'' \<mapsto> \<lparr>balance = 5, available = 5,
                                     pending_deposit = 0, pending_withdraw = 0\<rparr>],
                  contract_balances = Map.empty,
                  total_equity = 1001 / 4, available_balance = 0, positions_summary = [],
                  initial_margin = Some 0, maintenance_margin = Some 0,
                  spot_total = 181 / 2, contract_total = 0,
                  combined_liquid_assets = 181 / 2\<rparr>)"
  by (simp add: aggregate_eval decimal_eval example_two_wallets_def example_balance_def)

lemma example_bare_wallet_report:
  "aggregate_balances decimal_builtins ''2025-01-01T00:00:00'' example_bare_wallet example_balance =
     Inr ([Spot_header, Balance_line (JStr ''1'') 0 0, Contract_header, Positions_header],
          Report \<lparr>timestamp = ''2025-01-01T00:00:00'',
                  spot_balances = [JStr ''1'' \<mapsto> \<lparr>balance = 0, available = 0,
                                     pending_deposit = 0, pending_withdraw = 0\<rparr>],
                  contract_balances = Map.empty,
                  total_equity = 1001 / 4, available_balance = 0, positions_summary = [],
                  initial_margin = Some 0, maintenance_margin = Some 0,
                  spot_total = 0, contract_total = 0,
                  combined_liquid_assets = 0\<rparr>)"
  by (simp add: aggregate_eval decimal_eval example_bare_wallet_def example_balance_def)

text \<open>
  C4 as stated fails for a field that is present and not numeric: with the balance
  \<open>"abc"\<close> aggregation raises \<open>ValueError\<close>, with the balance \<open>null\<close> it raises
  \<open>TypeError\<close>.
\<close>

theorem malformed_field_counterexample:
  "aggregate_balances decimal_builtins ''2025-01-01T00:00:00''
     (example_malformed (JStr ''abc'')) example_balance = Inl ValueError \<and>
   aggregate_balances decimal_builtins ''2025-01-01T00:00:00''
     (example_malformed JNull) example_balance = Inl TypeError"
  by (simp add: aggregate_eval decimal_eval example_malformed_def example_balance_def
        digit_val_def less_eq_char_def)

lemma example_abc: "py_float decimal_builtins (JStr ''abc'') = Inl ValueError"
  by (simp add: decimal_eval digit_val_def less_eq_char_def)

lemma example_filled:
  "fill_account example_bare_wallet =
     JObj [(''spotWallets'',
            JArr [JObj [(''tokenId'', JStr ''1''), (''pendingWithdrawAmount'', JNum 0),
                        (''pendingDepositAmount'', JNum 0), (''balance'', JNum 0)]])]"
  by (simp add: fill_account_def fill_wallets_def fill_wallet_def fill_field_def
        example_bare_wallet_def)

lemma example_replies:
  "get_account_data decimal_builtins example_credentials (example_world (example_reply v))
     = Inr ([], v)"
  "get_account_balance decimal_builtins example_credentials (example_world (example_reply v))
     = Inr ([], v)"
  by (simp_all add: get_account_data_def get_account_balance_def make_request_def try_block_def
        read_timeout_def example_world_def example_reply_def raise_for_status_def then_do_def)

text \<open>
  C4, amended, on examples: a wallet with an identifier only; a spot wallet whose
  balance is \<open>"abc"\<close>; a contract wallet whose pending withdrawal is the integer
  \<open>2 ^ 1024\<close>, beyond the range of floats.
\<close>

theorem missing_field_defaults_to_zero_witness:
  "fill_account example_bare_wallet =
     JObj [(''spotWallets'',
            JArr [JObj [(''tokenId'', JStr ''1''), (''pendingWithdrawAmount'', JNum 0),
                        (''pendingDepositAmount'', JNum 0), (''balance'', JNum 0)]])] \<and>
   aggregate_balances decimal_builtins ''2025-01-01T00:00:00''
       (fill_account example_bare_wallet) example_balance =
     aggregate_balances decimal_builtins ''2025-01-01T00:00:00''
       example_bare_wallet example_balance \<and>
   (\<exists>out r.
      aggregate_balances decimal_builtins ''2025-01-01T00:00:00''
        example_bare_wallet example_balance = Inr (out, Report r) \<and>
      spot_balances r (JStr ''1'') =
        Some \<lparr>balance = 0, available = 0, pending_deposit = 0, pending_withdraw = 0\<rparr> \<and>
      (\<exists>sws cws.
         spot_wallets_of example_bare_wallet = Inr sws \<and>
         contract_wallets_of example_bare_wallet = Inr cws \<and>
         records_read_from decimal_builtins ''tokenId'' sws (spot_balances r) \<and>
         records_read_from decimal_builtins ''asset'' cws (contract_balances r))) \<and>
   truthy (example_malformed (JStr ''abc'')) \<and> truthy example_overflow \<and>
   truthy example_balance \<and>
   spot_wallets_of (example_malformed (JStr ''abc'')) =
     Inr [JObj [(''tokenId'', JStr ''1''), (''balance'', JStr ''abc'')]] \<and>
   contract_wallets_of example_overflow =
     Inr [JObj [(''asset'', JStr ''USDT''), (''pendingWithdrawAmount'', JBigInt (2 ^ 1024))]] \<and>
   py_float decimal_builtins (JStr ''abc'') = Inl ValueError \<and>
   py_float decimal_builtins (JBigInt (2 ^ 1024)) = Inl OverflowError \<and>
   (\<exists>e'. aggregate_balances decimal_builtins ''2025-01-01T00:00:00''
            (example_malformed (JStr ''abc'')) example_balance = Inl e') \<and>
   (\<exists>e'. aggregate_balances decimal_builtins ''2025-01-01T00:00:00''
            example_overflow example_balance = Inl e') \<and>
   (\<exists>e'. calculate_total_balance decimal_builtins example_credentials
            (example_world (example_reply (example_malformed (JStr ''abc''))))
            (example_world (example_reply example_balance)) ''2025-01-01T00:00:00'' = Inl e') \<and>
   (\<exists>e'. calculate_total_balance decimal_builtins example_credentials
            (example_world (example_reply example_overflow))
            (example_world (example_reply example_balance)) ''2025-01-01T00:00:00'' = Inl e')"
proof -
  let ?ts = "''2025-01-01T00:00:00''"
  let ?out = "[Spot_header, Balance_line (JStr ''1'') 0 0, Contract_header, Positions_header]
                :: rat line list"
  let ?r = "\<lparr>timestamp = ?ts,
             spot_balances = [JStr ''1'' \<mapsto> \<lparr>balance = 0, available = 0,
                                pending_deposit = 0, pending_withdraw = (0::rat)\<rparr>],
             contract_balances = Map.empty,
             total_equity = 1001 / 4, available_balance = 0, positions_summary = [],
             initial_margin = Some 0, maintenance_margin = Some 0,
             spot_total = 0, contract_total = 0,
             combined_liquid_assets = 0\<rparr>"
  let ?abc = "[(''tokenId'', JStr ''1''), (''balance'', JStr ''abc'')] :: (string \<times> rat json) list"
  let ?big = "[(''asset'', JStr ''USDT''), (''pendingWithdrawAmount'', JBigInt (2 ^ 1024))]
                :: (string \<times> rat json) list"
  note t1 = missing_field_defaults_to_zero[where B = decimal_builtins and ts = ?ts
      and a = example_bare_wallet and b = example_balance and out = ?out and r = ?r
      and ws = "[JObj ?abc]" and kvs = ?abc and k = "''balance''" and v = "JStr ''abc''"
      and e = ValueError]
  note t2 = missing_field_defaults_to_zero[where B = decimal_builtins and ts = ?ts
      and a = "example_malformed (JStr ''abc'')" and b = example_balance and out = ?out and r = ?r
      and ws = "[JObj ?abc]" and kvs = ?abc and k = "''balance''" and v = "JStr ''abc''"
      and e = ValueError and self = example_credentials
      and ?w1.0 = "example_world (example_reply (example_malformed (JStr ''abc'')))"
      and ?w2.0 = "example_world (example_reply example_balance)"
      and ?out1.0 = "[]" and ?out2.0 = "[]"]
  note t3 = missing_field_defaults_to_zero[where B = decimal_builtins and ts = ?ts
      and a = example_overflow and b = example_balance and out = ?out and r = ?r
      and ws = "[JObj ?big]" and kvs = ?big and k = "''pendingWithdrawAmount''"
      and v = "JBigInt (2 ^ 1024)"
      and e = OverflowError and self = example_credentials
      and ?w1.0 = "example_world (example_reply example_overflow)"
      and ?w2.0 = "example_world (example_reply example_balance)"
      and ?out1.0 = "[]" and ?out2.0 = "[]"]
  from t1 have f: "aggregate_balances decimal_builtins ?ts
       (fill_account example_bare_wallet) example_balance =
     aggregate_balances decimal_builtins ?ts example_bare_wallet example_balance"
    by blast
  from t1 example_bare_wallet_report
  have rf: "\<exists>sws cws.
         spot_wallets_of example_bare_wallet = Inr sws \<and>
         contract_wallets_of example_bare_wallet = Inr cws \<and>
         records_read_from decimal_builtins ''tokenId'' sws (spot_balances ?r) \<and>
         records_read_from decimal_builtins ''asset'' cws (contract_balances ?r)"
    by blast
  have sb: "spot_balances ?r (JStr ''1'') =
        Some \<lparr>balance = 0, available = 0, pending_deposit = 0, pending_withdraw = 0\<rparr>"
    by simp
  from example_bare_wallet_report sb rf
  have rep: "\<exists>out r.
      aggregate_balances decimal_builtins ?ts example_bare_wallet example_balance
        = Inr (out, Report r) \<and>
      spot_balances r (JStr ''1'') =
        Some \<lparr>balance = 0, available = 0, pending_deposit = 0, pending_withdraw = 0\<rparr> \<and>
      (\<exists>sws cws.
         spot_wallets_of example_bare_wallet = Inr sws \<and>
         contract_wallets_of example_bare_wallet = Inr cws \<and>
         records_read_from decimal_builtins ''tokenId'' sws (spot_balances r) \<and>
         records_read_from decimal_builtins ''asset'' cws (contract_balances r))"
    by blast
  have tr: "truthy (example_malformed (JStr ''abc''))" "truthy example_overflow"
    "truthy example_balance"
    by (simp_all add: example_malformed_def example_overflow_def example_balance_def)
  have sw: "spot_wallets_of (example_malformed (JStr ''abc'')) = Inr [JObj ?abc]"
    by (simp add: spot_wallets_of_def example_malformed_def then_do_Inr)
  have cw: "contract_wallets_of example_overflow = Inr [JObj ?big]"
    by (simp add: contract_wallets_of_def example_overflow_def then_do_Inr)
  have pf: "py_float decimal_builtins (JBigInt (2 ^ 1024)) = Inl OverflowError" by simp
  have m1: "JObj ?abc \<in> set [JObj ?abc]" "''balance'' \<in> set amount_fields"
    "map_of ?abc ''balance'' = Some (JStr ''abc'')"
    by (simp_all add: amount_fields_def)
  have m2: "JObj ?big \<in> set [JObj ?big]" "''pendingWithdrawAmount'' \<in> set amount_fields"
    "map_of ?big ''pendingWithdrawAmount'' = Some (JBigInt (2 ^ 1024))"
    by (simp_all add: amount_fields_def)
  from t2 tr sw m1 example_abc
  have a1: "\<exists>e'. aggregate_balances decimal_builtins ?ts
            (example_malformed (JStr ''abc'')) example_balance = Inl e'"
    by blast
  from t2 tr sw m1 example_abc example_replies
  have c1: "\<exists>e'. calculate_total_balance decimal_builtins example_credentials
            (example_world (example_reply (example_malformed (JStr ''abc''))))
            (example_world (example_reply example_balance)) ?ts = Inl e'"
    by blast
  from t3 tr cw m2 pf
  have a2: "\<exists>e'. aggregate_balances decimal_builtins ?ts example_overflow example_balance = Inl e'"
    by blast
  from t3 tr cw m2 pf example_replies
  have c2: "\<exists>e'. calculate_total_balance decimal_builtins example_credentials
            (example_world (example_reply example_overflow))
            (example_world (example_reply example_balance)) ?ts = Inl e'"
    by blast
  from example_filled f rep tr sw cw example_abc pf a1 a2 c1 c2 show ?thesis by blast
qed

text \<open>
  C6 on the example: the report that aggregation returns for the wallet above.
\<close>

theorem available_formula_witness:
  "aggregate_balances decimal_builtins ''2025-01-01T00:00:00'' example_spot_account example_balance =
     Inr ([Spot_header, Balance_line (JStr ''1'') (201 / 2) (181 / 2), Contract_header,
           Positions_header],
          Report \<lparr>timestamp = ''2025-01-01T00:00:00'',
                  spot_balances = [JStr ''1'' \<mapsto> \<lparr>balance = 201 / 2, available = 181 / 2,
                                     pending_deposit = 0, pending_withdraw = 10\<rparr>],
                  contract_balances = Map.empty,
                  total_equity = 1001 / 4, available_balance = 0, positions_summary = [],
                  initial_margin = Some 0, maintenance_margin = Some 0,
                  spot_total = 181 / 2, contract_total = 0,
                  combined_liquid_assets = 181 / 2\<rparr>) \<and>
   available \<lparr>balance = 201 / 2, available = 181 / 2, pending_deposit = 0,
              pending_withdraw = (10::rat)\<rparr> =
     balance \<lparr>balance = 201 / 2, available = 181 / 2, pending_deposit = 0,
              pending_withdraw = (10::rat)\<rparr> - 10 + 0"
proof -
  let ?rec = "\<lparr>balance = 201 / 2, available = 181 / 2, pending_deposit = 0,
              pending_withdraw = (10::rat)\<rparr>"
  let ?r = "\<lparr>timestamp = ''2025-01-01T00:00:00'',
                  spot_balances = [JStr ''1'' \<mapsto> ?rec],
                  contract_balances = Map.empty,
                  total_equity = 1001 / 4, available_balance = 0, positions_summary = [],
                  initial_margin = Some 0, maintenance_margin = Some 0,
                  spot_total = 181 / 2, contract_total = 0,
                  combined_liquid_assets = 181 / 2\<rparr>"
  note t = available_formula[where B = decimal_builtins and ts = "''2025-01-01T00:00:00''"
      and a = example_spot_account and b = example_balance and r = ?r
      and out = "[Spot_header, Balance_line (JStr ''1'') (201 / 2) (181 / 2), Contract_header,
           Positions_header]"]
  from t example_spot_report
  have "\<forall>k rec. spot_balances ?r k = Some rec \<longrightarrow>
         available rec = balance rec - pending_withdraw rec + pending_deposit rec"
    by blast
  then have "spot_balances ?r (JStr ''1'') = Some ?rec \<longrightarrow>
         available ?rec = balance ?rec - pending_withdraw ?rec + pending_deposit ?rec"
    by blast
  then have "available ?rec = balance ?rec - 10 + 0" by simp
  with example_spot_report show ?thesis by blast
qed

text \<open>
  C7 on an example: a wallet with identifier \<open>"1"\<close> and one with identifier
  \<open>"36"\<close>; the second is in \<open>spot_balances\<close> and adds nothing to \<open>spot_total\<close>.
\<close>

theorem spot_total_allow_list_witness:
  "\<exists>out r. aggregate_balances decimal_builtins ''2025-01-01T00:00:00'' example_two_wallets
              example_balance = Inr (out, Report r) \<and>
            spot_total r = 181 / 2 \<and>
            spot_balances r (JStr ''36'') =
              Some \<lparr>balance = 5, available = 5, pending_deposit = 0, pending_withdraw = 0\<rparr> \<and>
            (\<exists>sws recs.
               spot_wallets_of example_two_wallets = Inr sws \<and>
               map (read_wallet decimal_builtins ''tokenId'') sws = map Inr recs \<and>
               spot_total r =
                 foldl (+) 0 (map (\<lambda>tr. available (snd tr))
                   (filter (\<lambda>tr. fst tr \<in> set [JStr ''1'', JStr ''17'', JStr ''140'']) recs)))"
proof -
  let ?out = "[Spot_header, Balance_line (JStr ''1'') (201 / 2) (181 / 2),
           Balance_line (JStr ''36'') 5 5, Contract_header, Positions_header] :: rat line list"
  let ?r = "\<lparr>timestamp = ''2025-01-01T00:00:00'',
                  spot_balances = [JStr ''1'' \<mapsto> \<lparr>balance = 201 / 2, available = 181 / 2,
                                     pending_deposit = 0, pending_withdraw = (10::rat)\<rparr>,
                                   JStr ''36'' \<mapsto> \<lparr>balance = 5, available = 5,
                                     pending_deposit = 0, pending_withdraw = 0\<rparr>],
                  contract_balances = Map.empty,
                  total_equity = 1001 / 4, available_balance = 0, positions_summary = [],
                  initial_margin = Some 0, maintenance_margin = Some 0,
                  spot_total = 181 / 2, contract_total = 0,
                  combined_liquid_assets = 181 / 2\<rparr>"
  note t = spot_total_allow_list[where B = decimal_builtins and ts = "''2025-01-01T00:00:00''"
      and a = example_two_wallets and b = example_balance and out = ?out and r = ?r]
  from t example_two_wallets_report
  have "\<exists>sws recs.
               spot_wallets_of example_two_wallets = Inr sws \<and>
               map (read_wallet decimal_builtins ''tokenId'') sws = map Inr recs \<and>
               spot_total ?r =
                 foldl (+) 0 (map (\<lambda>tr. available (snd tr))
                   (filter (\<lambda>tr. fst tr \<in> set [JStr ''1'', JStr ''17'', JStr ''140'']) recs))"
    by blast
  moreover have "spot_total ?r = 181 / 2" by simp
  moreover have "spot_balances ?r (JStr ''36'') =
              Some \<lparr>balance = 5, available = 5, pending_deposit = 0, pending_withdraw = 0\<rparr>"
    by simp
  ultimately show ?thesis using example_two_wallets_report by blast
qed

lemma example_failed_requests:
  "get_account_data decimal_builtins example_credentials (example_world (Inl Timeout))
     = Inr ([Api_request_failed Timeout], JObj [])"
  "get_account_balance decimal_builtins example_credentials (example_world (Inl Timeout))
     = Inr ([Api_request_failed Timeout], JObj [])"
  by (simp_all add: get_account_data_def get_account_balance_def make_request_def try_block_def
        read_timeout_def example_world_def then_do_def)

text \<open>
  C8 on examples: the account data \<open>{}\<close>, and two requests that time out.
\<close>

theorem empty_input_empty_report_witness:
  "\<not> truthy (JObj [] :: rat json) \<and>
   aggregate_balances decimal_builtins ''2025-01-01T00:00:00'' (JObj []) example_balance =
     Inr ([Failed_to_fetch_account_data], Empty_dict) \<and>
   calculate_total_balance decimal_builtins example_credentials
     (example_world (Inl Timeout)) (example_world (Inl Timeout)) ''2025-01-01T00:00:00'' =
     Inr ([Fetching_account_data, Api_request_failed Timeout, Api_request_failed Timeout,
           Failed_to_fetch_account_data], Empty_dict)"
proof -
  note t = empty_input_empty_report[where a = "JObj []" and b = "JObj []"
      and B = decimal_builtins and ts = "''2025-01-01T00:00:00''"
      and self = example_credentials and ?w1.0 = "example_world (Inl Timeout)"
      and ?w2.0 = "example_world (Inl Timeout)"
      and ?out1.0 = "[Api_request_failed Timeout]" and ?out2.0 = "[Api_request_failed Timeout]"]
  note u = empty_input_empty_report[where a = "JObj []" and b = example_balance
      and B = decimal_builtins and ts = "''2025-01-01T00:00:00''"
      and self = example_credentials and ?w1.0 = "example_world (Inl Timeout)"
      and ?w2.0 = "example_world (Inl Timeout)"
      and ?out1.0 = "[Api_request_failed Timeout]" and ?out2.0 = "[Api_request_failed Timeout]"]
  have f: "\<not> truthy (JObj [] :: rat json)" by simp
  from t f example_failed_requests
  have c: "calculate_total_balance decimal_builtins example_credentials
     (example_world (Inl Timeout)) (example_world (Inl Timeout)) ''2025-01-01T00:00:00'' =
     Inr ([Fetching_account_data] @ [Api_request_failed Timeout] @ [Api_request_failed Timeout] @
          [Failed_to_fetch_account_data], Empty_dict)"
    by blast
  from u f have "aggregate_balances decimal_builtins ''2025-01-01T00:00:00'' (JObj []) example_balance =
     Inr ([Failed_to_fetch_account_data], Empty_dict)"
    by blast
  with f c show ?thesis by simp
qed

text \<open>
  C9 as stated fails when the empty answer is the empty dictionary \<open>{}\<close>, which is
  empty as Python tests it and is not \<open>None\<close>: with a lookup that always returns
  \<open>{}\<close> the loop stops after one lookup, nothing is raised, and the script goes on
  to the deposit step with the account \<open>{}\<close>, whose \<open>id\<close> is \<open>None\<close>.
\<close>

theorem account_poll_empty_dict_counterexample:
  "fetch_account (mock_lookup (\<lambda>i. Some (JObj [] :: rat json))) 0 =
     ([Print_fetching, Lookup, Print_account_fetched (JObj [])], Inr (JObj [], 1)) \<and>
   lookups (fst (fetch_account (mock_lookup (\<lambda>i. Some (JObj [] :: rat json))) 0)) = 1 \<and>
   \<not> truthy (JObj [] :: rat json) \<and>
   py_get (JObj [] :: rat json) ''id'' JNull = Inr JNull"
proof -
  let ?g = "mock_lookup (\<lambda>i. Some (JObj [] :: rat json))"
  have p: "poll_loop ?g (poll_init 0) =
     \<lparr>account = Some (JObj []), attempt = 1, client = 1, trace = [Print_fetching, Lookup]\<rparr>"
    by (subst poll_loop.simps, subst poll_loop.simps)
       (simp add: poll_init_def poll_body_def mock_lookup_def max_attempts_def)
  have r: "fetch_account ?g 0 =
     ([Print_fetching, Lookup, Print_account_fetched (JObj [])], Inr (JObj [], 1))"
    by (simp add: fetch_account_def p)
  show ?thesis
    unfolding r by (simp add: lookups_Cons lookups_Nil)
qed

end
